theory Spec2Isabelle
  imports Complex_Main "HOL-Library.Sublist" "HOL-Library.Multiset"
begin

section \<open>Floating-point cells\<close>

text \<open>
  The cells of the pandas frames are IEEE doubles.  A cell is modelled as a finite
  value, negative zero, one of the two infinities, or NaN (which pandas also uses for
  a missing value in a float column).  \<open>Fin 0\<close> is the positive zero \<open>0.0\<close> and
  \<open>NegZero\<close> is \<open>-0.0\<close>: the two compare equal, and they differ in what a division by
  them gives.  Finite arithmetic is exact arithmetic on the reals: rounding, and
  overflow and underflow of finite results, are abstracted away; zeros and the special
  values follow the IEEE rules, since the code relies on them (comparisons with NaN
  are false, division by zero yields an infinity or NaN and does not raise).
\<close>

datatype fval = Fin real | NegZero | PInf | NInf | NaN

fun fneg :: "fval \<Rightarrow> fval" where
  "fneg (Fin a) = (if a = 0 then NegZero else Fin (- a))"
| "fneg NegZero = Fin 0"
| "fneg PInf = NInf"
| "fneg NInf = PInf"
| "fneg NaN = NaN"

fun fadd :: "fval \<Rightarrow> fval \<Rightarrow> fval" where
  "fadd NaN y = NaN"
| "fadd x NaN = NaN"
| "fadd (Fin a) (Fin b) = Fin (a + b)"
| "fadd NegZero y = y"
| "fadd x NegZero = x"
| "fadd PInf NInf = NaN"
| "fadd NInf PInf = NaN"
| "fadd PInf y = PInf"
| "fadd x PInf = PInf"
| "fadd NInf y = NInf"
| "fadd x NInf = NInf"

definition fsub :: "fval \<Rightarrow> fval \<Rightarrow> fval" where
  "fsub x y = fadd x (fneg y)"

fun fmul :: "fval \<Rightarrow> fval \<Rightarrow> fval" where
  "fmul NaN y = NaN"
| "fmul x NaN = NaN"
| "fmul (Fin a) (Fin b) = (if a * b = 0 \<and> (a < 0 \<or> b < 0) then NegZero else Fin (a * b))"
| "fmul NegZero (Fin b) = (if b < 0 then Fin 0 else NegZero)"
| "fmul (Fin a) NegZero = (if a < 0 then Fin 0 else NegZero)"
| "fmul NegZero NegZero = Fin 0"
| "fmul NegZero y = NaN"
| "fmul x NegZero = NaN"
| "fmul PInf (Fin b) = (if b = 0 then NaN else if 0 < b then PInf else NInf)"
| "fmul NInf (Fin b) = (if b = 0 then NaN else if 0 < b then NInf else PInf)"
| "fmul (Fin a) PInf = (if a = 0 then NaN else if 0 < a then PInf else NInf)"
| "fmul (Fin a) NInf = (if a = 0 then NaN else if 0 < a then NInf else PInf)"
| "fmul PInf PInf = PInf"
| "fmul NInf NInf = PInf"
| "fmul PInf NInf = NInf"
| "fmul NInf PInf = NInf"

fun fdiv :: "fval \<Rightarrow> fval \<Rightarrow> fval" where
  "fdiv NaN y = NaN"
| "fdiv x NaN = NaN"
| "fdiv (Fin a) (Fin b) =
     (if b = 0 then (if a = 0 then NaN else if 0 < a then PInf else NInf)
      else if a = 0 \<and> b < 0 then NegZero
      else Fin (a / b))"
| "fdiv (Fin a) NegZero = (if a = 0 then NaN else if 0 < a then NInf else PInf)"
| "fdiv NegZero (Fin b) = (if b = 0 then NaN else if 0 < b then NegZero else Fin 0)"
| "fdiv NegZero NegZero = NaN"
| "fdiv NegZero PInf = NegZero"
| "fdiv NegZero NInf = Fin 0"
| "fdiv (Fin a) PInf = (if a < 0 then NegZero else Fin 0)"
| "fdiv (Fin a) NInf = (if a < 0 then Fin 0 else NegZero)"
| "fdiv PInf (Fin b) = (if 0 \<le> b then PInf else NInf)"
| "fdiv NInf (Fin b) = (if 0 \<le> b then NInf else PInf)"
| "fdiv PInf NegZero = NInf"
| "fdiv NInf NegZero = PInf"
| "fdiv PInf PInf = NaN"
| "fdiv PInf NInf = NaN"
| "fdiv NInf PInf = NaN"
| "fdiv NInf NInf = NaN"

fun fabs :: "fval \<Rightarrow> fval" where
  "fabs (Fin a) = Fin \<bar>a\<bar>"
| "fabs NegZero = Fin 0"
| "fabs PInf = PInf"
| "fabs NInf = PInf"
| "fabs NaN = NaN"

fun fle :: "fval \<Rightarrow> fval \<Rightarrow> bool" where
  "fle NaN y = False"
| "fle x NaN = False"
| "fle (Fin a) (Fin b) = (a \<le> b)"
| "fle NegZero (Fin b) = (0 \<le> b)"
| "fle (Fin a) NegZero = (a \<le> 0)"
| "fle NegZero NegZero = True"
| "fle NInf y = True"
| "fle x PInf = True"
| "fle PInf y = False"
| "fle x NInf = False"

fun flt :: "fval \<Rightarrow> fval \<Rightarrow> bool" where
  "flt NaN y = False"
| "flt x NaN = False"
| "flt (Fin a) (Fin b) = (a < b)"
| "flt NegZero (Fin b) = (0 < b)"
| "flt (Fin a) NegZero = (a < 0)"
| "flt NegZero NegZero = False"
| "flt PInf y = False"
| "flt x NInf = False"
| "flt NInf y = True"
| "flt x PInf = True"

text \<open>\<open>Series.clip(lower, upper)\<close>: values below \<open>lower\<close> become \<open>lower\<close>, values
  above \<open>upper\<close> become \<open>upper\<close>, NaN stays NaN.\<close>

definition clip :: "fval \<Rightarrow> fval \<Rightarrow> fval \<Rightarrow> fval" where
  "clip lower upper x =
     (if x = NaN then NaN
      else if flt x lower then lower
      else if flt upper x then upper
      else x)"

text \<open>\<open>Series.min()\<close> and \<open>Series.max()\<close> skip NaN and give NaN when no value is left.\<close>

definition fmin :: "fval \<Rightarrow> fval \<Rightarrow> fval" where
  "fmin a b = (if flt b a then b else a)"

definition fmax :: "fval \<Rightarrow> fval \<Rightarrow> fval" where
  "fmax a b = (if flt a b then b else a)"

definition series_min :: "fval list \<Rightarrow> fval" where
  "series_min xs =
     (case filter (\<lambda>v. v \<noteq> NaN) xs of [] \<Rightarrow> NaN | y # ys \<Rightarrow> fold fmin ys y)"

definition series_max :: "fval list \<Rightarrow> fval" where
  "series_max xs =
     (case filter (\<lambda>v. v \<noteq> NaN) xs of [] \<Rightarrow> NaN | y # ys \<Rightarrow> fold fmax ys y)"

section \<open>Data model\<close>

text \<open>One row of the frame that \<open>search_by_properties\<close> builds: the ten keys of the
  dictionary it appends per document.  The numeric columns are float columns, as the
  data model has them: a numeric value the database does not have is NaN; an absent
  \<open>is_stable\<close> is falsy and read as \<open>False\<close>.  (A column in which no row has a
  value is a column of \<open>None\<close> instead; only the explainer, which reads cells with
  \<open>row.get\<close>, is modelled on such a column.)\<close>

record material =
  mp_id :: string
  formula :: string
  composition :: string
  energy_above_hull :: fval
  band_gap :: fval
  density :: fval
  formation_energy :: fval
  crystal_system :: "string option"
  is_stable :: bool
  is_theoretical :: bool

text \<open>The requirements dictionary: a key that is absent is \<open>None\<close>.  Only
  \<open>min_band_gap\<close>, \<open>max_band_gap\<close>, \<open>elements\<close> and \<open>max_density\<close> are ever read.\<close>

record requirement_set =
  min_strength :: "fval option"
  max_density :: "fval option"
  max_temp :: "fval option"
  max_cost_per_kg :: "fval option"
  min_band_gap :: "fval option"
  max_band_gap :: "fval option"
  corrosion_resistance :: "string option"
  elements :: "string list option"

text \<open>Which of the columns that the code tests for (\<open>'density' in scored.columns\<close>,
  \<open>row.get('density', 10)\<close>) a frame has.  A frame built by
  \<open>search_by_properties\<close> has all of them.\<close>

record columns =
  has_is_stable :: bool
  has_density :: bool
  has_energy_above_hull :: bool
  has_band_gap :: bool

definition all_columns :: columns where
  "all_columns =
     \<lparr>has_is_stable = True, has_density = True,
      has_energy_above_hull = True, has_band_gap = True\<rparr>"

datatype error = KeyError string | ValueError string | TypeError string | AdapterError string

section \<open>Constraint filter\<close>

text \<open>\<open>MatSelectAI._apply_filters\<close>.  Indexing a column the frame does not have raises
  \<open>KeyError\<close>.\<close>

definition apply_filters ::
  "columns \<Rightarrow> ('a material_scheme) list \<Rightarrow> requirement_set \<Rightarrow> error + ('a material_scheme) list" where
  "apply_filters cols candidates reqs =
     (case (case max_density reqs of
              None \<Rightarrow> Inr candidates
            | Some md \<Rightarrow>
                if has_density cols
                then Inr (filter (\<lambda>r. fle (density r) md) candidates)
                else Inl (KeyError ''density'')) of
        Inl e \<Rightarrow> Inl e
      | Inr filtered \<Rightarrow>
          if has_energy_above_hull cols
          then Inr (filter (\<lambda>r. fle (energy_above_hull r) (Fin (1 / 10))) filtered)
          else Inl (KeyError ''energy_above_hull''))"

section \<open>Scoring engine\<close>

record scored_material = material +
  match_score :: fval

definition with_score :: "material \<Rightarrow> fval \<Rightarrow> scored_material" where
  "with_score m s = material.extend m (scored_material.fields s)"

text \<open>\<open>optimize and 'weight' in optimize\<close>.\<close>

definition wants_weight :: "string list option \<Rightarrow> bool" where
  "wants_weight optimize =
     (case optimize of None \<Rightarrow> False | Some objs \<Rightarrow> objs \<noteq> [] \<and> ''weight'' \<in> set objs)"

text \<open>\<open>1 - (density - density.min()) / (density.max() - density.min() + 1e-10)\<close>\<close>

definition density_normalized :: "fval list \<Rightarrow> fval list" where
  "density_normalized ds =
     map (\<lambda>d. fsub (Fin 1)
            (fdiv (fsub d (series_min ds))
                  (fadd (fsub (series_max ds) (series_min ds)) (Fin (1 / 10 ^ 10)))))
         ds"

text \<open>\<open>(1 - energy_above_hull / 0.1).clip(0, 1)\<close>, and the term added to the score.\<close>

definition stability_score :: "fval \<Rightarrow> fval" where
  "stability_score e = clip (Fin 0) (Fin 1) (fsub (Fin 1) (fdiv e (Fin (1 / 10))))"

definition stability_term :: "fval \<Rightarrow> fval" where
  "stability_term e = fmul (stability_score e) (Fin 40)"

text \<open>\<open>(1 - abs(band_gap - target) / (band_gap.max() + 1)).clip(0, 1)\<close>\<close>

definition gap_score :: "fval \<Rightarrow> fval list \<Rightarrow> fval \<Rightarrow> fval" where
  "gap_score target bgs bg =
     clip (Fin 0) (Fin 1)
       (fsub (Fin 1) (fdiv (fabs (fsub bg target)) (fadd (series_max bgs) (Fin 1))))"

text \<open>The array \<open>scores\<close> of \<open>MatSelectAI._score_materials\<close>, one entry per row, in the
  order of the rows.\<close>

definition match_scores ::
  "columns \<Rightarrow> material list \<Rightarrow> requirement_set \<Rightarrow> string list option \<Rightarrow> fval list" where
  "match_scores cols materials reqs optimize =
     (let scores0 = replicate (length materials) (Fin 0);
          scores1 =
            (if wants_weight optimize \<and> has_density cols
             then map2 fadd scores0
                    (map (\<lambda>v. fmul v (Fin 30)) (density_normalized (map density materials)))
             else scores0);
          scores2 =
            (if has_energy_above_hull cols
             then map2 fadd scores1 (map (\<lambda>r. stability_term (energy_above_hull r)) materials)
             else scores1);
          scores3 =
            (case min_band_gap reqs of
               None \<Rightarrow> scores2
             | Some target \<Rightarrow>
                 if has_band_gap cols
                 then map2 fadd scores2
                        (map (\<lambda>r. fmul (gap_score target (map band_gap materials) (band_gap r))
                                      (Fin 30))
                             materials)
                 else scores2)
      in map (\<lambda>s. fadd s (Fin 10)) scores3)"

text \<open>\<open>MatSelectAI._score_materials\<close>.  The last line,
  \<open>scored.sort_values('match_score', ascending=False)\<close>, is the library's sort with its
  default algorithm; it is the parameter \<open>sort_values\<close>.\<close>

definition score_materials ::
  "columns \<Rightarrow> (scored_material list \<Rightarrow> scored_material list) \<Rightarrow> material list \<Rightarrow>
   requirement_set \<Rightarrow> string list option \<Rightarrow> scored_material list" where
  "score_materials cols sort_values materials reqs optimize =
     sort_values (map2 with_score materials (match_scores cols materials reqs optimize))"

text \<open>What \<open>sort_values(..., ascending=False)\<close> promises with the default
  \<open>kind='quicksort'\<close> and \<open>na_position='last'\<close>: the rows are rearranged, a row never
  stands before a row with a greater score, and rows with a NaN score come last.  The
  default algorithm is not a stable one.\<close>

definition score_ge :: "fval \<Rightarrow> fval \<Rightarrow> bool" where
  "score_ge a b = (b = NaN \<or> fle b a)"

definition sorted_descending :: "scored_material list \<Rightarrow> bool" where
  "sorted_descending xs = sorted_wrt (\<lambda>a b. score_ge (match_score a) (match_score b)) xs"

definition sorts_descending :: "(scored_material list \<Rightarrow> scored_material list) \<Rightarrow> bool" where
  "sorts_descending sort_values =
     (\<forall>xs. mset (sort_values xs) = mset xs \<and> sorted_descending (sort_values xs))"

text \<open>An insertion sort that keeps the promise.\<close>

fun insert_descending :: "scored_material \<Rightarrow> scored_material list \<Rightarrow> scored_material list" where
  "insert_descending x [] = [x]"
| "insert_descending x (y # ys) =
     (if score_ge (match_score x) (match_score y) then x # y # ys
      else y # insert_descending x ys)"

definition stable_sort_descending :: "scored_material list \<Rightarrow> scored_material list" where
  "stable_sort_descending xs = foldr insert_descending xs []"

text \<open>How the library sorts one key in descending order (pandas' \<open>nargsort\<close>): the rows
  with a NaN key are set aside, in their order; the other rows are reversed, numpy's
  \<open>argsort\<close> (with \<open>kind='quicksort'\<close>) sorts their keys in ascending order, the rows are
  taken in that order and reversed again; the NaN rows are put last.  \<open>argsort\<close> is a
  parameter: which algorithm numpy runs depends on the processor.\<close>

definition sort_values_descending ::
  "(fval list \<Rightarrow> nat list) \<Rightarrow> scored_material list \<Rightarrow> scored_material list" where
  "sort_values_descending argsort frame =
     (let non_nans = rev (filter (\<lambda>r. match_score r \<noteq> NaN) frame);
          nans = filter (\<lambda>r. match_score r = NaN) frame;
          indexer = argsort (map match_score non_nans)
      in rev (map (\<lambda>i. non_nans ! i) indexer) @ nans)"

text \<open>What numpy's \<open>argsort\<close> promises for keys without NaN: the positions of the keys,
  each once, in an order in which the keys do not decrease.  With \<open>kind='quicksort'\<close>
  nothing is promised about the order of positions with equal keys.\<close>

definition argsorts :: "(fval list \<Rightarrow> nat list) \<Rightarrow> bool" where
  "argsorts argsort =
     (\<forall>ks. NaN \<notin> set ks \<longrightarrow>
        mset (argsort ks) = mset [0..<length ks]
        \<and> sorted_wrt (\<lambda>i j. fle (ks ! i) (ks ! j)) (argsort ks))"

text \<open>numpy's generic \<open>argsort\<close> on at most sixteen keys is an insertion sort.\<close>

fun insert_index :: "fval list \<Rightarrow> nat \<Rightarrow> nat list \<Rightarrow> nat list" where
  "insert_index ks i [] = [i]"
| "insert_index ks i (j # js) =
     (if fle (ks ! i) (ks ! j) then i # j # js else j # insert_index ks i js)"

definition insertion_argsort :: "fval list \<Rightarrow> nat list" where
  "insertion_argsort ks = foldr (insert_index ks) [0..<length ks] []"

text \<open>numpy's \<open>argsort\<close> of 64-bit keys on an x86 processor with AVX2 or AVX-512 is the
  vectorised sort.  On at most four keys it loads the keys with their positions into
  the lanes of one register, fills the free lanes with \<open>+inf\<close>, and runs the sorting
  network (0,1) (2,3), (0,3) (1,2), (0,1) (2,3), where a comparator exchanges two lanes
  only when the key of the lower lane is greater.  Longer arrays run larger networks
  and a vectorised quicksort, which are not transcribed: there the definition is the
  insertion sort, and it is not used there.\<close>

definition compare_exchange :: "nat \<times> nat \<Rightarrow> (fval \<times> nat) list \<Rightarrow> (fval \<times> nat) list" where
  "compare_exchange c lanes =
     (case c of (i, j) \<Rightarrow>
        if flt (fst (lanes ! j)) (fst (lanes ! i))
        then lanes[i := lanes ! j, j := lanes ! i]
        else lanes)"

definition simd_argsort :: "fval list \<Rightarrow> nat list" where
  "simd_argsort ks =
     (let n = length ks
      in if n \<le> 4
         then map snd (take n
                (fold compare_exchange [(0, 1), (2, 3), (0, 3), (1, 2), (0, 1), (2, 3)]
                   (zip ks [0..<n] @ replicate (4 - n) (PInf, 0))))
         else insertion_argsort ks)"

section \<open>Ranker\<close>

text \<open>\<open>DataFrame.head(n)\<close>: the first \<open>n\<close> rows; for a negative \<open>n\<close>, all rows but the
  last \<open>-n\<close>.\<close>

definition head :: "int \<Rightarrow> 'a list \<Rightarrow> 'a list" where
  "head n xs = (if 0 \<le> n then take (nat n) xs else take (length xs - nat (- n)) xs)"

section \<open>Explainer\<close>

record enriched_material = scored_material +
  recommendation_reason :: string

definition with_reason :: "scored_material \<Rightarrow> string \<Rightarrow> enriched_material" where
  "with_reason r s = scored_material.extend r (enriched_material.fields s)"

fun join :: "string \<Rightarrow> string list \<Rightarrow> string" where
  "join sep [] = []"
| "join sep [x] = x"
| "join sep (x # y # ys) = x @ sep @ join sep (y # ys)"

text \<open>What a row of the frame holds under a key: the frame has no such column; the
  cell is \<open>None\<close> (a column in which no row has a value is a column of \<open>None\<close>, not a
  float column); or a value.  The loop reads three keys.\<close>

datatype 'v cell = Absent | IsNone | Value 'v

record row_cells =
  is_stable_cell :: "bool cell"
  density_cell :: "fval cell"
  energy_above_hull_cell :: "fval cell"

text \<open>\<open>row.get(key, default)\<close>: the default when the key is absent, otherwise the cell,
  and Python's \<open>None\<close> is the \<open>None\<close> of the option type.\<close>

definition row_get :: "'v cell \<Rightarrow> 'v \<Rightarrow> 'v option" where
  "row_get c dflt = (case c of Absent \<Rightarrow> Some dflt | IsNone \<Rightarrow> None | Value v \<Rightarrow> Some v)"

text \<open>The truth value of \<open>row.get('is_stable', False)\<close>: \<open>None\<close> is falsy.\<close>

definition truthy :: "bool option \<Rightarrow> bool" where
  "truthy v = (case v of None \<Rightarrow> False | Some b \<Rightarrow> b)"

text \<open>Python's \<open>v < x\<close> for a float \<open>x\<close>: \<open>None < x\<close> raises \<open>TypeError\<close> (the message
  is written without its quotation marks).\<close>

definition py_lt :: "fval option \<Rightarrow> fval \<Rightarrow> error + bool" where
  "py_lt v x =
     (case v of
        None \<Rightarrow> Inl (TypeError ''< not supported between instances of NoneType and float'')
      | Some a \<Rightarrow> Inr (flt a x))"

text \<open>The body of the loop of \<open>MatSelectAI._enrich_materials\<close>.\<close>

definition reason_of :: "row_cells \<Rightarrow> error + string" where
  "reason_of row =
     (let parts1 = (if truthy (row_get (is_stable_cell row) False)
                    then [''Thermodynamically stable''] else [])
      in case py_lt (row_get (density_cell row) (Fin 10)) (Fin 5) of
           Inl e \<Rightarrow> Inl e
         | Inr lightweight \<Rightarrow>
             (let parts2 = (if lightweight then parts1 @ [''Lightweight''] else parts1)
              in case py_lt (row_get (energy_above_hull_cell row) (Fin 1)) (Fin (2 / 100)) of
                   Inl e \<Rightarrow> Inl e
                 | Inr highly_stable \<Rightarrow>
                     (let parts3 = (if highly_stable then parts2 @ [''Highly stable'']
                                    else parts2)
                      in Inr (if parts3 \<noteq> [] then join ''; '' parts3
                              else ''Meets requirements''))))"

text \<open>\<open>MatSelectAI._enrich_materials\<close>: the loop over the rows; \<open>cells\<close> gives what the
  frame holds for a row under the three keys.  An exception in a row ends the call.\<close>

fun enrich_materials ::
  "(scored_material \<Rightarrow> row_cells) \<Rightarrow> scored_material list \<Rightarrow> error + enriched_material list" where
  "enrich_materials cells [] = Inr []"
| "enrich_materials cells (row # rest) =
     (case reason_of (cells row) of
        Inl e \<Rightarrow> Inl e
      | Inr reason \<Rightarrow>
          (case enrich_materials cells rest of
             Inl e \<Rightarrow> Inl e
           | Inr enriched \<Rightarrow> Inr (with_reason row reason # enriched)))"

text \<open>The cells of a row of a frame with float columns.\<close>

definition frame_cells :: "columns \<Rightarrow> scored_material \<Rightarrow> row_cells" where
  "frame_cells cols row =
     \<lparr>is_stable_cell = (if has_is_stable cols then Value (is_stable row) else Absent),
      density_cell = (if has_density cols then Value (density row) else Absent),
      energy_above_hull_cell =
        (if has_energy_above_hull cols then Value (energy_above_hull row) else Absent)\<rparr>"

section \<open>Recommendation\<close>

text \<open>The keyword arguments \<open>recommend\<close> passes to \<open>search_by_properties\<close>.\<close>

record criteria =
  crit_min_band_gap :: "fval option"
  crit_max_band_gap :: "fval option"
  crit_elements :: "string list option"

record recommendation_results =
  candidates :: "enriched_material list"
  requirements :: requirement_set
  optimize_objectives :: "string list option"
  show_tradeoffs :: bool

text \<open>\<open>MatSelectAI.recommend\<close>.  The data source is the parameter \<open>search\<close>, called with
  the criteria and \<open>limit=100\<close>; an exception it raises propagates.  Console output is
  not modelled.  The frame of a non-empty search has every column, and its columns
  are float columns.\<close>

definition recommend ::
  "(criteria \<Rightarrow> nat \<Rightarrow> error + material list) \<Rightarrow>
   (scored_material list \<Rightarrow> scored_material list) \<Rightarrow>
   requirement_set \<Rightarrow> string list option \<Rightarrow> bool \<Rightarrow> int \<Rightarrow> error + recommendation_results" where
  "recommend search sort_values reqs optimize tradeoffs top_n =
     (case search \<lparr>crit_min_band_gap = min_band_gap reqs,
                   crit_max_band_gap = max_band_gap reqs,
                   crit_elements = elements reqs\<rparr> 100 of
        Inl e \<Rightarrow> Inl e
      | Inr found \<Rightarrow>
          if length found = 0
          then Inr \<lparr>candidates = [], requirements = reqs,
                    optimize_objectives = None, show_tradeoffs = False\<rparr>
          else
            (case apply_filters all_columns found reqs of
               Inl e \<Rightarrow> Inl e
             | Inr filtered \<Rightarrow>
                 (let scored = score_materials all_columns sort_values filtered reqs optimize;
                      top_materials = head top_n scored
                  in case enrich_materials (frame_cells all_columns) top_materials of
                       Inl e \<Rightarrow> Inl e
                     | Inr enriched \<Rightarrow>
                         Inr \<lparr>candidates = enriched, requirements = reqs,
                              optimize_objectives = optimize, show_tradeoffs = tradeoffs\<rparr>)))"

section \<open>Comparator\<close>

text \<open>The dictionary \<open>get_material_by_id\<close> returns: the keys of a search row and the
  detailed ones.\<close>

record detailed_material = material +
  volume :: fval
  space_group :: "string option"
  bulk_modulus :: "fval option"
  shear_modulus :: "fval option"
  youngs_modulus :: "fval option"

record comparison_row = detailed_material +
  density_vs_baseline :: "fval option"
  band_gap_vs_baseline :: "fval option"
  formation_energy_vs_baseline :: "fval option"

definition with_deltas ::
  "detailed_material \<Rightarrow> fval option \<Rightarrow> fval option \<Rightarrow> fval option \<Rightarrow> comparison_row" where
  "with_deltas r d b f = detailed_material.extend r (comparison_row.fields d b f)"

text \<open>\<open>Series.round(1)\<close> is numpy's: the cell is multiplied by ten, rounded to the
  nearest integer with ties to the even one (\<open>rint\<close>, which gives \<open>-0.0\<close> for a negative
  value that rounds to zero), and divided by ten; infinities and NaN are kept.\<close>

definition rint :: "real \<Rightarrow> real" where
  "rint x =
     (let f = \<lfloor>x\<rfloor>; d = x - of_int f
      in if d < 1 / 2 then of_int f
         else if 1 / 2 < d then of_int (f + 1)
         else if even f then of_int f else of_int (f + 1))"

fun frint :: "fval \<Rightarrow> fval" where
  "frint (Fin a) = (if a < 0 \<and> rint a = 0 then NegZero else Fin (rint a))"
| "frint NegZero = NegZero"
| "frint PInf = PInf"
| "frint NInf = NInf"
| "frint NaN = NaN"

definition round1 :: "fval \<Rightarrow> fval" where
  "round1 x = fdiv (frint (fmul x (Fin 10))) (Fin 10)"

text \<open>\<open>((df[col] - baseline[col]) / baseline[col] * 100).round(1)\<close> for one cell.\<close>

definition vs_baseline :: "fval \<Rightarrow> fval \<Rightarrow> fval" where
  "vs_baseline v b = round1 (fmul (fdiv (fsub v b) b) (Fin 100))"

text \<open>The loop of \<open>MatSelectAI.what_if\<close>: the identifiers are fetched in order, an
  identifier for which the source raises \<open>ValueError\<close> prints a warning and is left
  out, any other exception propagates.  The result is the printed warnings and the
  fetched records.\<close>

definition not_found_warning :: "string \<Rightarrow> string" where
  "not_found_warning ident = ''Warning: Material '' @ ident @ '' not found''"

fun fetch_all ::
  "(string \<Rightarrow> error + detailed_material) \<Rightarrow> string list \<Rightarrow>
   error + (string list \<times> detailed_material list)" where
  "fetch_all get_material_by_id [] = Inr ([], [])"
| "fetch_all get_material_by_id (ident # rest) =
     (case get_material_by_id ident of
        Inr mat_data \<Rightarrow>
          (case fetch_all get_material_by_id rest of
             Inl e \<Rightarrow> Inl e
           | Inr (warnings, comparison_data) \<Rightarrow> Inr (warnings, mat_data # comparison_data))
      | Inl (ValueError msg) \<Rightarrow>
          (case fetch_all get_material_by_id rest of
             Inl e \<Rightarrow> Inl e
           | Inr (warnings, comparison_data) \<Rightarrow>
               Inr (not_found_warning ident # warnings, comparison_data))
      | Inl e \<Rightarrow> Inl e)"

text \<open>\<open>MatSelectAI.what_if\<close>.  Every fetched dictionary has the three compared keys,
  so the frame has the three columns whenever it has a row.\<close>

definition what_if ::
  "(string \<Rightarrow> error + detailed_material) \<Rightarrow> string \<Rightarrow> string list \<Rightarrow> bool \<Rightarrow>
   error + (string list \<times> comparison_row list)" where
  "what_if get_material_by_id baseline_material alternative_materials show_savings =
     (case fetch_all get_material_by_id (baseline_material # alternative_materials) of
        Inl e \<Rightarrow> Inl e
      | Inr (warnings, comparison_data) \<Rightarrow>
          if show_savings \<and> 1 < length comparison_data
          then
            (let baseline = hd comparison_data
             in Inr (warnings,
                  map (\<lambda>r. with_deltas r
                         (Some (vs_baseline (density r) (density baseline)))
                         (Some (vs_baseline (band_gap r) (band_gap baseline)))
                         (Some (vs_baseline (formation_energy r) (formation_energy baseline))))
                      comparison_data))
          else Inr (warnings, map (\<lambda>r. with_deltas r None None None) comparison_data))"

text \<open>For stating what \<open>what_if\<close> returns: the records of the identifiers the source
  has, in the order of the identifiers; the identifiers it fails on; and whether every
  failure among them is the \<open>ValueError\<close> of an identifier that is not found.\<close>

definition found_records ::
  "(string \<Rightarrow> error + detailed_material) \<Rightarrow> string list \<Rightarrow> detailed_material list" where
  "found_records get_material_by_id ids =
     concat (map (\<lambda>i. case get_material_by_id i of Inr r \<Rightarrow> [r] | Inl e \<Rightarrow> []) ids)"

definition not_found_ids ::
  "(string \<Rightarrow> error + detailed_material) \<Rightarrow> string list \<Rightarrow> string list" where
  "not_found_ids get_material_by_id ids = filter (\<lambda>i. isl (get_material_by_id i)) ids"

definition only_not_found ::
  "(string \<Rightarrow> error + detailed_material) \<Rightarrow> string list \<Rightarrow> bool" where
  "only_not_found get_material_by_id ids =
     list_all (\<lambda>i. case get_material_by_id i of
                      Inl (ValueError m) \<Rightarrow> True
                    | Inl e \<Rightarrow> False
                    | Inr r \<Rightarrow> True) ids"

section \<open>Example data\<close>

definition example_material :: "string \<Rightarrow> fval \<Rightarrow> fval \<Rightarrow> material" where
  "example_material ident e d =
     \<lparr>mp_id = ident, formula = ''X'', composition = ''X1'', energy_above_hull = e,
      band_gap = Fin 1, density = d, formation_energy = Fin (- 1), crystal_system = None,
      is_stable = True, is_theoretical = False\<rparr>"

definition no_requirements :: requirement_set where
  "no_requirements =
     \<lparr>min_strength = None, max_density = None, max_temp = None, max_cost_per_kg = None,
      min_band_gap = None, max_band_gap = None, corrosion_resistance = None,
      elements = None\<rparr>"

definition example_search :: "criteria \<Rightarrow> nat \<Rightarrow> error + material list" where
  "example_search crit limit =
     Inr (take limit [example_material ''a'' (Fin 0) (Fin 3),
           example_material ''b'' (Fin (5 / 100)) (Fin 6),
           example_material ''c'' (Fin (1 / 10)) (Fin (9 / 2))])"

definition empty_search :: "criteria \<Rightarrow> nat \<Rightarrow> error + material list" where
  "empty_search crit limit = Inr []"

definition example_detail :: "string \<Rightarrow> fval \<Rightarrow> detailed_material" where
  "example_detail ident d =
     \<lparr>mp_id = ident, formula = ''X'', composition = ''X1'', energy_above_hull = Fin 0,
      band_gap = Fin 1, density = d, formation_energy = Fin (- 2), crystal_system = None,
      is_stable = True, is_theoretical = False, volume = Fin 40, space_group = None,
      bulk_modulus = None, shear_modulus = None, youngs_modulus = None\<rparr>"

definition example_source :: "string \<Rightarrow> error + detailed_material" where
  "example_source ident =
     (if ident = ''mp-149'' then Inr (example_detail ''mp-149'' (Fin 7))
      else if ident = ''mp-13'' then Inr (example_detail ''mp-13'' (Fin (35 / 10)))
      else if ident = ''mp-0'' then Inr (example_detail ''mp-0'' (Fin 0))
      else Inl (ValueError (''Material '' @ ident @ '' not found'')))"

section \<open>Properties of the constraint filter\<close>

lemma subseq_filter_self: "subseq (filter P xs) xs"
  by (induction xs) auto

lemma apply_filters_Inr:
  assumes "apply_filters cols cs reqs = Inr out"
  shows "out = filter (\<lambda>r. (case max_density reqs of None \<Rightarrow> True | Some md \<Rightarrow> fle (density r) md) \<and>
                 fle (energy_above_hull r) (Fin (1 / 10)))
               cs"
  using assms
  by (auto simp: apply_filters_def split: option.splits if_splits)

lemma apply_filters_total:
  assumes "has_energy_above_hull cols" and "has_density cols"
  shows "\<exists>out. apply_filters cols cs reqs = Inr out"
  using assms by (simp add: apply_filters_def split: option.splits)

text \<open>
  Claim C2.  On a frame that has the columns the filter reads, \<open>_apply_filters\<close> returns
  (it does not raise), its output is a subsequence of its input in the original order,
  every retained row has \<open>energy_above_hull \<le> 0.1\<close> and, when \<open>max_density\<close> is present,
  \<open>density \<le> max_density\<close>, and every row of the input that is not retained fails one of
  these two tests.
\<close>

theorem apply_filters_sound:
  assumes "has_energy_above_hull cols" and "max_density reqs \<noteq> None \<longrightarrow> has_density cols"
  shows "\<exists>out. apply_filters cols cs reqs = Inr out
    \<and> subseq out cs
    \<and> (\<forall>r \<in> set out. fle (energy_above_hull r) (Fin (1 / 10))
          \<and> (\<forall>md. max_density reqs = Some md \<longrightarrow> fle (density r) md))
    \<and> (\<forall>r \<in> set cs. r \<notin> set out \<longrightarrow>
          (\<not> fle (energy_above_hull r) (Fin (1 / 10))
           \<or> (\<exists>md. max_density reqs = Some md \<and> \<not> fle (density r) md)))"
proof -
  have "\<exists>out. apply_filters cols cs reqs = Inr out"
    using assms by (cases "max_density reqs") (simp_all add: apply_filters_def)
  then obtain out where out: "apply_filters cols cs reqs = Inr out" ..
  note eq = apply_filters_Inr [OF out]
  have "subseq out cs" unfolding eq by (rule subseq_filter_self)
  moreover have "\<forall>r \<in> set out. fle (energy_above_hull r) (Fin (1 / 10))
          \<and> (\<forall>md. max_density reqs = Some md \<longrightarrow> fle (density r) md)"
    unfolding eq by auto
  moreover have "\<forall>r \<in> set cs. r \<notin> set out \<longrightarrow>
          (\<not> fle (energy_above_hull r) (Fin (1 / 10))
           \<or> (\<exists>md. max_density reqs = Some md \<and> \<not> fle (density r) md))"
    unfolding eq by (auto split: option.splits)
  ultimately show ?thesis using out by blast
qed

text \<open>The scenario of densities 3.0, 6.0 and 4.5 under \<open>max_density = 5.0\<close>.\<close>

theorem apply_filters_sound_witness:
  "apply_filters all_columns
      [example_material ''a'' (Fin 0) (Fin 3), example_material ''b'' (Fin 0) (Fin 6),
       example_material ''c'' (Fin 0) (Fin (9 / 2))]
      (no_requirements\<lparr>max_density := Some (Fin 5)\<rparr>)
    = Inr [example_material ''a'' (Fin 0) (Fin 3), example_material ''c'' (Fin 0) (Fin (9 / 2))]
   \<and> subseq [example_material ''a'' (Fin 0) (Fin 3), example_material ''c'' (Fin 0) (Fin (9 / 2))]
        [example_material ''a'' (Fin 0) (Fin 3), example_material ''b'' (Fin 0) (Fin 6),
         example_material ''c'' (Fin 0) (Fin (9 / 2))]
   \<and> \<not> fle (density (example_material ''b'' (Fin 0) (Fin 6))) (Fin 5)"
proof -
  let ?cs = "[example_material ''a'' (Fin 0) (Fin 3), example_material ''b'' (Fin 0) (Fin 6),
              example_material ''c'' (Fin 0) (Fin (9 / 2))]"
  let ?rq = "no_requirements\<lparr>max_density := Some (Fin 5)\<rparr>"
  have ev: "apply_filters all_columns ?cs ?rq
      = Inr [example_material ''a'' (Fin 0) (Fin 3), example_material ''c'' (Fin 0) (Fin (9 / 2))]"
    by (simp add: apply_filters_def all_columns_def example_material_def no_requirements_def)
  have h1: "has_energy_above_hull all_columns"
    by (simp add: all_columns_def)
  have h2: "max_density ?rq \<noteq> None \<longrightarrow> has_density all_columns"
    by (simp add: all_columns_def)
  from apply_filters_sound [OF h1 h2, of ?cs] ev
  have "subseq [example_material ''a'' (Fin 0) (Fin 3), example_material ''c'' (Fin 0) (Fin (9 / 2))] ?cs"
    by auto
  moreover have "\<not> fle (density (example_material ''b'' (Fin 0) (Fin 6))) (Fin 5)"
    by (simp add: example_material_def)
  ultimately show ?thesis using ev by simp
qed


section \<open>Properties of the scoring engine\<close>

lemma stability_term_Fin:
  "stability_term (Fin x) = Fin (40 * max 0 (min 1 (1 - 10 * x)))"
  by (simp add: stability_term_def stability_score_def clip_def fsub_def max_def min_def)

lemma stability_term_NegZero: "stability_term NegZero = Fin 40"
  by (simp add: stability_term_def stability_score_def clip_def fsub_def)

lemma stability_term_antimono:
  assumes "fle e1 e2"
  shows "fle (stability_term e2) (stability_term e1)"
proof (cases e1)
  case (Fin x)
  note e1 = this
  show ?thesis
  proof (cases e2)
    case (Fin y)
    with e1 assms have "x \<le> y" by simp
    then show ?thesis unfolding e1 Fin stability_term_Fin
      by (simp add: max_def min_def)
  next
    case NegZero
    with e1 assms have "x \<le> 0" by simp
    then show ?thesis unfolding e1 NegZero stability_term_Fin stability_term_NegZero
      by (simp add: max_def min_def)
  qed (use e1 assms in \<open>simp_all add: stability_term_def stability_score_def clip_def fsub_def\<close>)
next
  case NegZero
  note e1 = this
  show ?thesis
  proof (cases e2)
    case (Fin y)
    with e1 assms have "0 \<le> y" by simp
    then show ?thesis unfolding e1 Fin stability_term_Fin stability_term_NegZero
      by (simp add: max_def min_def)
  qed (use e1 assms in \<open>simp_all add: stability_term_def stability_score_def clip_def fsub_def\<close>)
next
  case PInf
  with assms show ?thesis
    by (cases e2) (simp_all add: stability_term_def stability_score_def clip_def fsub_def)
next
  case NInf
  with assms show ?thesis
    by (cases e2)
      (simp_all add: stability_term_def stability_score_def clip_def fsub_def max_def min_def)
next
  case NaN
  with assms show ?thesis by simp
qed

lemma length_match_scores: "length (match_scores cols ms reqs opt) = length ms"
  by (simp add: match_scores_def Let_def density_normalized_def split: option.splits)

lemma match_score_with_score: "match_score (with_score m s) = s"
  by (simp add: with_score_def material.defs scored_material.defs)

text \<open>
  Claim C4.  The stability term is \<open>clip(1 - energy_above_hull / 0.1, 0, 1) * 40\<close>: for
  every finite \<open>energy_above_hull\<close> it is \<open>40 * max(0, min(1, 1 - energy_above_hull / 0.1))\<close>,
  so it is 0 from 0.1 on and 40 up to 0; it is 40 at \<open>energy_above_hull = 0\<close> and 0 at
  \<open>0.1\<close>; on \<open>[0, 0.1]\<close> it is \<open>40 * (1 - energy_above_hull / 0.1)\<close> and does not increase
  when \<open>energy_above_hull\<close> grows; the last conjunct is the same monotonicity for any two
  cells that compare.
\<close>

theorem stability_term_spec:
  "stability_term e = fmul (clip (Fin 0) (Fin 1) (fsub (Fin 1) (fdiv e (Fin (1 / 10))))) (Fin 40)
   \<and> stability_term (Fin x) = Fin (40 * max 0 (min 1 (1 - x / (1 / 10))))
   \<and> (1 / 10 \<le> x \<longrightarrow> stability_term (Fin x) = Fin 0)
   \<and> (x \<le> 0 \<longrightarrow> stability_term (Fin x) = Fin 40)
   \<and> stability_term (Fin 0) = Fin 40
   \<and> stability_term (Fin (1 / 10)) = Fin 0
   \<and> (0 \<le> x \<and> x \<le> 1 / 10 \<longrightarrow> stability_term (Fin x) = Fin (40 * (1 - x / (1 / 10))))
   \<and> (0 \<le> x \<and> x \<le> y \<and> y \<le> 1 / 10 \<longrightarrow> fle (stability_term (Fin y)) (stability_term (Fin x)))
   \<and> (fle e1 e2 \<longrightarrow> fle (stability_term e2) (stability_term e1))"
proof -
  have "stability_term e
      = fmul (clip (Fin 0) (Fin 1) (fsub (Fin 1) (fdiv e (Fin (1 / 10))))) (Fin 40)"
    by (simp add: stability_term_def stability_score_def)
  moreover have "stability_term (Fin x) = Fin (40 * max 0 (min 1 (1 - x / (1 / 10))))"
    by (simp add: stability_term_Fin)
  moreover have "1 / 10 \<le> x \<longrightarrow> stability_term (Fin x) = Fin 0"
    by (simp add: stability_term_Fin max_def min_def)
  moreover have "x \<le> 0 \<longrightarrow> stability_term (Fin x) = Fin 40"
    by (simp add: stability_term_Fin max_def min_def)
  moreover have "stability_term (Fin 0) = Fin 40"
    by (simp add: stability_term_Fin)
  moreover have "stability_term (Fin (1 / 10)) = Fin 0"
    by (simp add: stability_term_Fin)
  moreover have "0 \<le> x \<and> x \<le> 1 / 10 \<longrightarrow> stability_term (Fin x) = Fin (40 * (1 - x / (1 / 10)))"
    by (simp add: stability_term_Fin max_def min_def)
  moreover have "0 \<le> x \<and> x \<le> y \<and> y \<le> 1 / 10
      \<longrightarrow> fle (stability_term (Fin y)) (stability_term (Fin x))"
    by (simp add: stability_term_antimono)
  moreover have "fle e1 e2 \<longrightarrow> fle (stability_term e2) (stability_term e1)"
    by (simp add: stability_term_antimono)
  ultimately show ?thesis by blast
qed

text \<open>At 0.05 the term is 20, below the 40 at 0; at 0.2, beyond the ceiling, the
  clipped term is 0, and at -0.1 it is 40.\<close>

theorem stability_term_spec_witness:
  "(0::real) \<le> 0 \<and> (0::real) \<le> 5 / 100 \<and> (5 / 100 :: real) \<le> 1 / 10
   \<and> stability_term (Fin (5 / 100)) = Fin 20
   \<and> fle (stability_term (Fin (5 / 100))) (stability_term (Fin 0))
   \<and> fle (Fin 0) (Fin (5 / 100))
   \<and> (1 / 10 :: real) \<le> 2 / 10 \<and> stability_term (Fin (2 / 10)) = Fin 0
   \<and> (- 1 / 10 :: real) \<le> 0 \<and> stability_term (Fin (- 1 / 10)) = Fin 40"
proof -
  have h: "(0::real) \<le> 0 \<and> (0::real) \<le> 5 / 100 \<and> (5 / 100 :: real) \<le> 1 / 10" by simp
  have h2: "(0::real) \<le> 5 / 100 \<and> (5 / 100 :: real) \<le> 1 / 10" by simp
  have h3: "fle (Fin 0) (Fin (5 / 100))" by simp
  have h4: "(1 / 10 :: real) \<le> 2 / 10" by simp
  have h5: "(- 1 / 10 :: real) \<le> 0" by simp
  from stability_term_spec [of "Fin 0" "5 / 100" "5 / 100" "Fin 0" "Fin (5 / 100)"] h2
  have a: "stability_term (Fin (5 / 100)) = Fin 20" by simp
  from stability_term_spec [of "Fin 0" 0 "5 / 100" "Fin 0" "Fin (5 / 100)"] h h3
  have b: "fle (stability_term (Fin (5 / 100))) (stability_term (Fin 0))" by blast
  from stability_term_spec [of "Fin 0" "2 / 10" "2 / 10" "Fin 0" "Fin 0"] h4
  have c: "stability_term (Fin (2 / 10)) = Fin 0" by blast
  from stability_term_spec [of "Fin 0" "- 1 / 10" "- 1 / 10" "Fin 0" "Fin 0"] h5
  have d: "stability_term (Fin (- 1 / 10)) = Fin 40" by blast
  show ?thesis using h a b h3 h4 h5 c d by blast
qed


section \<open>Properties of the explainer\<close>

text \<open>The rationale when no cell read by the density and stability tests is \<open>None\<close>: the
  three tests in their order, the phrases joined by \<open>"; "\<close>.\<close>

lemma reason_of_table:
  assumes "density_cell row \<noteq> IsNone" and "energy_above_hull_cell row \<noteq> IsNone"
  shows "reason_of row =
     Inr (if is_stable_cell row = Value True
          then (if (\<exists>d. density_cell row = Value d \<and> flt d (Fin 5))
                then (if (\<exists>e. energy_above_hull_cell row = Value e \<and> flt e (Fin (2 / 100)))
                      then ''Thermodynamically stable; Lightweight; Highly stable''
                      else ''Thermodynamically stable; Lightweight'')
                else (if (\<exists>e. energy_above_hull_cell row = Value e \<and> flt e (Fin (2 / 100)))
                      then ''Thermodynamically stable; Highly stable''
                      else ''Thermodynamically stable''))
          else (if (\<exists>d. density_cell row = Value d \<and> flt d (Fin 5))
                then (if (\<exists>e. energy_above_hull_cell row = Value e \<and> flt e (Fin (2 / 100)))
                      then ''Lightweight; Highly stable''
                      else ''Lightweight'')
                else (if (\<exists>e. energy_above_hull_cell row = Value e \<and> flt e (Fin (2 / 100)))
                      then ''Highly stable''
                      else ''Meets requirements'')))"
proof -
  have s: "truthy (row_get (is_stable_cell row) False) = (is_stable_cell row = Value True)"
    by (cases "is_stable_cell row") (auto simp: truthy_def row_get_def)
  have d: "py_lt (row_get (density_cell row) (Fin 10)) (Fin 5)
      = Inr (\<exists>d. density_cell row = Value d \<and> flt d (Fin 5))"
    using assms(1) by (cases "density_cell row") (auto simp: py_lt_def row_get_def)
  have e: "py_lt (row_get (energy_above_hull_cell row) (Fin 1)) (Fin (2 / 100))
      = Inr (\<exists>e. energy_above_hull_cell row = Value e \<and> flt e (Fin (2 / 100)))"
    using assms(2) by (cases "energy_above_hull_cell row") (auto simp: py_lt_def row_get_def)
  show ?thesis
    unfolding reason_of_def s d e by (auto simp: Let_def)
qed

text \<open>A frame without a density column: the default 10.0 is compared, and fails the
  test.\<close>

lemma reason_of_absent_density:
  "reason_of (row\<lparr>density_cell := Absent\<rparr>) = reason_of (row\<lparr>density_cell := Value (Fin 10)\<rparr>)"
  by (simp add: reason_of_def row_get_def py_lt_def Let_def)

text \<open>A density cell that is \<open>None\<close>: the comparison raises.\<close>

lemma reason_of_none_density:
  assumes "density_cell row = IsNone"
  shows "reason_of row
     = Inl (TypeError ''< not supported between instances of NoneType and float'')"
  using assms by (simp add: reason_of_def row_get_def py_lt_def Let_def)

lemma truncate_with_reason: "scored_material.truncate (with_reason r s) = r"
  by (cases r)
    (simp add: with_reason_def scored_material.defs enriched_material.defs material.defs)

lemma recommendation_reason_with_reason: "recommendation_reason (with_reason r s) = s"
  by (simp add: with_reason_def scored_material.defs enriched_material.defs material.defs)

text \<open>On a frame with float columns no cell is \<open>None\<close> and the loop returns: every row
  unchanged, with its rationale.\<close>

lemma reason_of_frame_cells: "\<exists>s. reason_of (frame_cells cols row) = Inr s"
  using reason_of_table [of "frame_cells cols row"] by (simp add: frame_cells_def)

lemma enrich_materials_float:
  "\<exists>enriched. enrich_materials (frame_cells cols) ms = Inr enriched
     \<and> map scored_material.truncate enriched = ms
     \<and> map (\<lambda>r. Inr (recommendation_reason r)) enriched
         = map (\<lambda>r. reason_of (frame_cells cols r)) ms"
proof (induction ms)
  case Nil
  show ?case by simp
next
  case (Cons m ms)
  then obtain enriched where ih: "enrich_materials (frame_cells cols) ms = Inr enriched"
    "map scored_material.truncate enriched = ms"
    "map (\<lambda>r. Inr (recommendation_reason r)) enriched
         = map (\<lambda>r. reason_of (frame_cells cols r)) ms"
    by blast
  obtain s where s: "reason_of (frame_cells cols m) = Inr s"
    using reason_of_frame_cells by blast
  show ?case
    by (simp add: s ih truncate_with_reason recommendation_reason_with_reason)
qed

text \<open>
  Claim C5.  The explainer tests \<open>is_stable\<close>, \<open>density < 5.0\<close> and
  \<open>energy_above_hull < 0.02\<close> in this order and joins the phrases, and a frame without a
  density column is read as density 10.0 (the lemmas above).  But a density that is
  missing in every row is a column of \<open>None\<close>: \<open>row.get('density', 10)\<close> then returns
  \<open>None\<close>, not 10.0, and the comparison with 5.0 raises \<open>TypeError\<close>; no rationale is
  produced.  Here the frame has one row, stable and on the hull, without a density.
\<close>

theorem explainer_none_density_raises:
  "enrich_materials (\<lambda>row. (frame_cells all_columns row)\<lparr>density_cell := IsNone\<rparr>)
      [with_score (example_material ''mp-1'' (Fin 0) NaN) (Fin 50)]
     = Inl (TypeError ''< not supported between instances of NoneType and float'')"
  by (simp add: reason_of_none_density)


section \<open>Properties of the ranker\<close>

lemma score_ge_total: "score_ge a b \<or> score_ge b a"
  by (cases a; cases b) (auto simp: score_ge_def)

lemma score_ge_trans: "score_ge a b \<Longrightarrow> score_ge b c \<Longrightarrow> score_ge a c"
  by (cases a; cases b; cases c) (auto simp: score_ge_def)

lemma mset_insert_descending: "mset (insert_descending x xs) = add_mset x (mset xs)"
  by (induction xs) auto

lemma set_insert_descending: "set (insert_descending x xs) = insert x (set xs)"
  by (induction xs) auto

lemma sorted_insert_descending:
  "sorted_descending xs \<Longrightarrow> sorted_descending (insert_descending x xs)"
proof (induction xs)
  case Nil
  then show ?case by (simp add: sorted_descending_def)
next
  case (Cons y ys)
  show ?case
  proof (cases "score_ge (match_score x) (match_score y)")
    case True
    with Cons.prems show ?thesis
      by (auto simp: sorted_descending_def intro: score_ge_trans)
  next
    case False
    then have "score_ge (match_score y) (match_score x)"
      using score_ge_total by blast
    with False Cons show ?thesis
      by (auto simp: sorted_descending_def set_insert_descending)
  qed
qed

lemma mset_stable_sort_descending: "mset (stable_sort_descending xs) = mset xs"
  by (induction xs) (simp_all add: stable_sort_descending_def mset_insert_descending)

lemma sorted_stable_sort_descending: "sorted_descending (stable_sort_descending xs)"
proof (induction xs)
  case Nil
  show ?case by (simp add: stable_sort_descending_def sorted_descending_def)
next
  case (Cons x xs)
  then show ?case
    using sorted_insert_descending [of "stable_sort_descending xs" x]
    by (simp add: stable_sort_descending_def)
qed

lemma sorts_descending_stable: "sorts_descending stable_sort_descending"
  by (simp add: sorts_descending_def mset_stable_sort_descending sorted_stable_sort_descending)

text \<open>A list that is sorted for a relation is the only sorted arrangement of its
  elements when no two of them are related both ways.\<close>

lemma sorted_wrt_unique:
  assumes "sorted_wrt R xs" and "sorted_wrt R ys" and "mset ys = mset xs"
    and "\<And>a b. a \<in> set xs \<Longrightarrow> b \<in> set xs \<Longrightarrow> R a b \<Longrightarrow> R b a \<Longrightarrow> a = b"
  shows "ys = xs"
  using assms
proof (induction xs arbitrary: ys)
  case Nil
  then show ?case by simp
next
  case (Cons x xs)
  from Cons.prems(3) obtain y ys' where ys: "ys = y # ys'"
    by (cases ys) auto
  have sets: "set ys = set (x # xs)"
    using Cons.prems(3) by (rule mset_eq_setD)
  have "x = y"
  proof (rule ccontr)
    assume ne: "x \<noteq> y"
    with sets ys have mem: "x \<in> set ys'" "y \<in> set xs" by auto
    with Cons.prems(1,2) ys have "R y x" and "R x y" by auto
    with Cons.prems(4) [of x y] mem ne show False by simp
  qed
  with Cons.prems ys have "ys' = xs"
    by (intro Cons.IH) auto
  with \<open>x = y\<close> ys show ?case by simp
qed

lemma sort_values_strictly_descending:
  assumes "sorts_descending sv"
    and "sorted_wrt (\<lambda>a b. flt (match_score b) (match_score a)) xs"
  shows "sv xs = xs"
proof (rule sorted_wrt_unique [where R = "\<lambda>a b. score_ge (match_score a) (match_score b)"])
  show "sorted_wrt (\<lambda>a b. score_ge (match_score a) (match_score b)) (sv xs)"
    using assms(1) by (simp add: sorts_descending_def sorted_descending_def)
  show "mset (sv xs) = mset xs"
    using assms(1) by (simp add: sorts_descending_def)
  have imp: "flt q p \<Longrightarrow> score_ge p q" for p q
    by (cases p; cases q) (auto simp: score_ge_def)
  show "sorted_wrt (\<lambda>a b. score_ge (match_score a) (match_score b)) xs"
    using assms(2) by (rule sorted_wrt_mono_rel [rotated]) (simp add: imp)
  show "a = b" if "a \<in> set xs" "b \<in> set xs"
    "score_ge (match_score a) (match_score b)" "score_ge (match_score b) (match_score a)" for a b
  proof (rule ccontr)
    assume "a \<noteq> b"
    with that(1,2) assms(2)
    have "flt (match_score b) (match_score a) \<or> flt (match_score a) (match_score b)"
      by (auto simp: sorted_wrt_iff_nth_less in_set_conv_nth)
         (metis linorder_neqE_nat)
    with that(3,4) show False
      by (cases "match_score a"; cases "match_score b") (auto simp: score_ge_def)
  qed
qed

lemma head_nonneg: "0 \<le> n \<Longrightarrow> head n xs = take (nat n) xs"
  by (simp add: head_def)

lemma sorted_descending_take: "sorted_descending xs \<Longrightarrow> sorted_descending (take k xs)"
  unfolding sorted_descending_def by (rule sorted_wrt_take)

lemmas pipeline_eval = score_materials_def match_scores_def
  stable_sort_descending_def with_score_def with_reason_def material.defs scored_material.defs
  enriched_material.defs stability_term_def stability_score_def clip_def fsub_def head_def
  score_ge_def example_material_def no_requirements_def all_columns_def wants_weight_def

subsection \<open>The insertion argsort keeps numpy's promise\<close>

lemma fle_total: "a \<noteq> NaN \<Longrightarrow> b \<noteq> NaN \<Longrightarrow> fle a b \<or> fle b a"
  by (cases a; cases b) auto

lemma fle_trans: "fle a b \<Longrightarrow> fle b c \<Longrightarrow> fle a c"
  by (cases a; cases b; cases c) auto

lemma mset_insert_index: "mset (insert_index ks i js) = add_mset i (mset js)"
  by (induction js) auto

lemma set_insert_index: "set (insert_index ks i js) = insert i (set js)"
  by (induction js) auto

lemma sorted_insert_index:
  assumes "NaN \<notin> set ks" and "i < length ks" and "\<forall>j \<in> set js. j < length ks"
    and "sorted_wrt (\<lambda>i j. fle (ks ! i) (ks ! j)) js"
  shows "sorted_wrt (\<lambda>i j. fle (ks ! i) (ks ! j)) (insert_index ks i js)"
  using assms(3,4)
proof (induction js)
  case Nil
  show ?case by simp
next
  case (Cons j js)
  show ?case
  proof (cases "fle (ks ! i) (ks ! j)")
    case True
    with Cons.prems show ?thesis
      by (auto intro: fle_trans)
  next
    case False
    have "ks ! i \<noteq> NaN" and "ks ! j \<noteq> NaN"
      using assms(1,2) Cons.prems(1) by (auto simp: in_set_conv_nth)
    with False have "fle (ks ! j) (ks ! i)"
      using fle_total by blast
    with False Cons show ?thesis
      by (auto simp: set_insert_index)
  qed
qed

lemma insertion_argsort_fold:
  assumes "NaN \<notin> set ks" and "\<forall>i \<in> set idx. i < length ks"
  shows "mset (foldr (insert_index ks) idx []) = mset idx
    \<and> sorted_wrt (\<lambda>i j. fle (ks ! i) (ks ! j)) (foldr (insert_index ks) idx [])"
  using assms(2)
proof (induction idx)
  case Nil
  show ?case by simp
next
  case (Cons i idx)
  then have ih: "mset (foldr (insert_index ks) idx []) = mset idx"
    "sorted_wrt (\<lambda>i j. fle (ks ! i) (ks ! j)) (foldr (insert_index ks) idx [])"
    by simp_all
  have mem: "\<forall>j \<in> set (foldr (insert_index ks) idx []). j < length ks"
    using Cons.prems mset_eq_setD [OF ih(1)] by simp
  have "sorted_wrt (\<lambda>i j. fle (ks ! i) (ks ! j))
      (insert_index ks i (foldr (insert_index ks) idx []))"
    using assms(1) _ mem ih(2) by (rule sorted_insert_index) (use Cons.prems in simp)
  then show ?case
    by (simp add: mset_insert_index ih(1))
qed

lemma argsorts_insertion: "argsorts insertion_argsort"
  unfolding argsorts_def insertion_argsort_def
  using insertion_argsort_fold by simp

subsection \<open>Sorting in descending order with an argsort\<close>

lemma sorts_descending_argsort:
  assumes "argsorts argsort"
  shows "sorts_descending (sort_values_descending argsort)"
  unfolding sorts_descending_def
proof (intro allI conjI)
  fix frame :: "scored_material list"
  define non_nans where "non_nans = rev (filter (\<lambda>r. match_score r \<noteq> NaN) frame)"
  define nans where "nans = filter (\<lambda>r. match_score r = NaN) frame"
  define ks where "ks = map match_score non_nans"
  define indexer where "indexer = argsort ks"
  have res: "sort_values_descending argsort frame
      = rev (map (\<lambda>i. non_nans ! i) indexer) @ nans"
    by (simp add: sort_values_descending_def Let_def non_nans_def nans_def ks_def indexer_def)
  have nonan: "NaN \<notin> set ks"
    by (auto simp: ks_def non_nans_def)
  have len: "length ks = length non_nans"
    by (simp add: ks_def)
  from assms nonan have perm: "mset indexer = mset [0..<length ks]"
    and asc: "sorted_wrt (\<lambda>i j. fle (ks ! i) (ks ! j)) indexer"
    by (simp_all add: argsorts_def indexer_def)
  have inb: "\<forall>i \<in> set indexer. i < length non_nans"
    using mset_eq_setD [OF perm] len by simp
  have rows: "image_mset ((!) non_nans) (mset indexer) = mset non_nans"
  proof -
    have "image_mset ((!) non_nans) (mset indexer)
        = image_mset ((!) non_nans) (mset [0..<length non_nans])"
      by (simp only: perm len)
    also have "\<dots> = mset (map ((!) non_nans) [0..<length non_nans])"
      by (simp only: mset_map)
    also have "\<dots> = mset non_nans"
      by (simp only: map_nth)
    finally show ?thesis .
  qed
  have "mset (sort_values_descending argsort frame) = mset non_nans + mset nans"
    by (simp add: res rows)
  also have "\<dots> = mset frame"
    by (simp add: non_nans_def nans_def)
  finally show "mset (sort_values_descending argsort frame) = mset frame" .
  have "sorted_wrt (\<lambda>i j. fle (match_score (non_nans ! i)) (match_score (non_nans ! j))) indexer"
    using asc inb
    by (auto simp: ks_def sorted_wrt_iff_nth_less)
  then have "sorted_wrt (\<lambda>a b. fle (match_score a) (match_score b))
      (map (\<lambda>i. non_nans ! i) indexer)"
    by (simp add: sorted_wrt_map)
  then have "sorted_wrt (\<lambda>a b. fle (match_score b) (match_score a))
      (rev (map (\<lambda>i. non_nans ! i) indexer))"
    by (simp add: sorted_wrt_rev)
  then have "sorted_wrt (\<lambda>a b. score_ge (match_score a) (match_score b))
      (rev (map (\<lambda>i. non_nans ! i) indexer))"
    by (rule sorted_wrt_mono_rel [rotated]) (simp add: score_ge_def)
  moreover have "sorted_wrt (\<lambda>a b. score_ge (match_score a) (match_score b)) nans"
    by (simp add: nans_def sorted_wrt_iff_nth_less score_ge_def)
       (metis (mono_tags, lifting) mem_Collect_eq nth_mem set_filter)
  moreover have "\<forall>a \<in> set (rev (map (\<lambda>i. non_nans ! i) indexer)). \<forall>b \<in> set nans.
      score_ge (match_score a) (match_score b)"
    by (simp add: nans_def score_ge_def)
  ultimately show "sorted_descending (sort_values_descending argsort frame)"
    by (simp add: res sorted_descending_def sorted_wrt_append)
qed

lemma head_take:
  "head n xs = take (if 0 \<le> n then nat n else length xs - nat (- n)) xs"
  by (simp add: head_def)

text \<open>
  Claim C1, as the code has it.  \<open>_score_materials\<close> ends in
  \<open>sort_values('match_score', ascending=False)\<close> and \<open>recommend\<close> takes \<open>head(top_n)\<close> of
  the result.  Whatever \<open>argsort\<close> within numpy's promise the processor runs: the
  scored rows are the annotated rows rearranged, no row stands before a row of greater
  score (rows with a NaN score last), the ranker returns the first \<open>top_n\<close> of them
  (for a negative \<open>top_n\<close>, all but the last \<open>-top_n\<close>), still in descending order, and
  all of them when there are at most \<open>top_n\<close>.  Rows of equal score do not always keep
  their order: the code asks for no stable algorithm.
\<close>

theorem ranker_sorted_truncated:
  assumes "argsorts argsort"
  shows "mset (score_materials cols (sort_values_descending argsort) ms reqs opt)
           = mset (map2 with_score ms (match_scores cols ms reqs opt))
    \<and> sorted_descending (score_materials cols (sort_values_descending argsort) ms reqs opt)
    \<and> head top_n (score_materials cols (sort_values_descending argsort) ms reqs opt)
        = take (if 0 \<le> top_n then nat top_n else length ms - nat (- top_n))
            (score_materials cols (sort_values_descending argsort) ms reqs opt)
    \<and> sorted_descending
         (head top_n (score_materials cols (sort_values_descending argsort) ms reqs opt))
    \<and> (0 \<le> top_n \<longrightarrow>
         length (head top_n (score_materials cols (sort_values_descending argsort) ms reqs opt))
           = min (nat top_n) (length ms))
    \<and> (int (length ms) \<le> top_n \<longrightarrow>
         head top_n (score_materials cols (sort_values_descending argsort) ms reqs opt)
           = score_materials cols (sort_values_descending argsort) ms reqs opt)"
proof -
  let ?ann = "map2 with_score ms (match_scores cols ms reqs opt)"
  let ?scored = "score_materials cols (sort_values_descending argsort) ms reqs opt"
  have sd: "sorts_descending (sort_values_descending argsort)"
    using assms by (rule sorts_descending_argsort)
  have m: "mset ?scored = mset ?ann" and s: "sorted_descending ?scored"
    using sd by (simp_all add: sorts_descending_def score_materials_def)
  have "length ?scored = length ?ann"
    using m by (rule mset_eq_length)
  then have len: "length ?scored = length ms"
    by (simp add: length_match_scores)
  have h: "head top_n ?scored
      = take (if 0 \<le> top_n then nat top_n else length ms - nat (- top_n)) ?scored"
    unfolding head_take len ..
  have "sorted_descending (head top_n ?scored)"
    unfolding h using s by (rule sorted_descending_take)
  moreover have "0 \<le> top_n \<longrightarrow> length (head top_n ?scored) = min (nat top_n) (length ms)"
    unfolding h using len by (simp add: min.commute)
  moreover have "int (length ms) \<le> top_n \<longrightarrow> head top_n ?scored = ?scored"
    unfolding h using len by simp
  ultimately show ?thesis using m s h by blast
qed

theorem ranker_sorted_truncated_witness:
  "argsorts insertion_argsort
   \<and> length (head 2 (score_materials all_columns (sort_values_descending insertion_argsort)
        [example_material ''a'' (Fin (1 / 10)) (Fin 3), example_material ''b'' (Fin 0) (Fin 3),
         example_material ''c'' (Fin (5 / 100)) (Fin 3)]
        no_requirements None)) = 2
   \<and> sorted_descending
        (head 2 (score_materials all_columns (sort_values_descending insertion_argsort)
        [example_material ''a'' (Fin (1 / 10)) (Fin 3), example_material ''b'' (Fin 0) (Fin 3),
         example_material ''c'' (Fin (5 / 100)) (Fin 3)]
        no_requirements None))
   \<and> map mp_id (head 2 (score_materials all_columns (sort_values_descending insertion_argsort)
        [example_material ''a'' (Fin (1 / 10)) (Fin 3), example_material ''b'' (Fin 0) (Fin 3),
         example_material ''c'' (Fin (5 / 100)) (Fin 3)]
        no_requirements None)) = [''b'', ''c'']"
proof -
  let ?ms = "[example_material ''a'' (Fin (1 / 10)) (Fin 3), example_material ''b'' (Fin 0) (Fin 3),
         example_material ''c'' (Fin (5 / 100)) (Fin 3)]"
  let ?r = "head 2 (score_materials all_columns (sort_values_descending insertion_argsort) ?ms
      no_requirements None)"
  note t = ranker_sorted_truncated [OF argsorts_insertion, of all_columns ?ms
      no_requirements None 2]
  have ev: "map mp_id ?r = [''b'', ''c'']"
    by (simp add: pipeline_eval sort_values_descending_def insertion_argsort_def upt_rec)
  have h2: "(0::int) \<le> 2" by simp
  from t h2 have "length ?r = min (nat 2) (length ?ms)" by blast
  then have l: "length ?r = 2" by simp
  from t have sd: "sorted_descending ?r" by blast
  show ?thesis using ev argsorts_insertion l sd by blast
qed

text \<open>Four candidates with scores 10, 30, 50 and 50, sorted with the argsort numpy runs
  on an x86 processor with AVX2 or AVX-512: the two rows of score 50, \<open>c\<close> before \<open>d\<close>
  in the frame, are returned \<open>d\<close> before \<open>c\<close>.\<close>

theorem ranker_ties_counterexample:
  "match_scores all_columns
        [example_material ''a'' (Fin (1 / 10)) (Fin 3),
         example_material ''b'' (Fin (5 / 100)) (Fin 3),
         example_material ''c'' (Fin 0) (Fin 3), example_material ''d'' (Fin 0) (Fin 3)]
        no_requirements None = [Fin 10, Fin 30, Fin 50, Fin 50]
   \<and> map mp_id (head 5 (score_materials all_columns (sort_values_descending simd_argsort)
        [example_material ''a'' (Fin (1 / 10)) (Fin 3),
         example_material ''b'' (Fin (5 / 100)) (Fin 3),
         example_material ''c'' (Fin 0) (Fin 3), example_material ''d'' (Fin 0) (Fin 3)]
        no_requirements None)) = [''d'', ''c'', ''b'', ''a'']
   \<and> map match_score (head 5 (score_materials all_columns (sort_values_descending simd_argsort)
        [example_material ''a'' (Fin (1 / 10)) (Fin 3),
         example_material ''b'' (Fin (5 / 100)) (Fin 3),
         example_material ''c'' (Fin 0) (Fin 3), example_material ''d'' (Fin 0) (Fin 3)]
        no_requirements None)) = [Fin 50, Fin 50, Fin 30, Fin 10]"
  by (simp add: pipeline_eval sort_values_descending_def simd_argsort_def
      compare_exchange_def upt_rec)


section \<open>Properties of the recommendation\<close>

text \<open>
  Claim C3.  With an empty requirement set, no objectives and \<open>top_n = 2\<close>, for three
  candidates of \<open>energy_above_hull\<close> 0.0, 0.05 and 0.1 returned by the search: the
  stability terms are 40, 20 and 0, the scores 50, 30 and 10, and \<open>recommend\<close> returns
  the first two candidates in that order, whichever sort within the library's promise
  is used.
\<close>

theorem scenario_three_candidates:
  assumes "sorts_descending sv"
    and "search \<lparr>crit_min_band_gap = None, crit_max_band_gap = None, crit_elements = None\<rparr> 100
           = Inr [a, b, c]"
    and "energy_above_hull a = Fin 0"
    and "energy_above_hull b = Fin (5 / 100)"
    and "energy_above_hull c = Fin (1 / 10)"
  shows "map (\<lambda>r. stability_term (energy_above_hull r)) [a, b, c] = [Fin 40, Fin 20, Fin 0]
    \<and> match_scores all_columns [a, b, c] no_requirements None = [Fin 50, Fin 30, Fin 10]
    \<and> (\<exists>enriched.
          enrich_materials (frame_cells all_columns) [with_score a (Fin 50), with_score b (Fin 30)]
            = Inr enriched
        \<and> map scored_material.truncate enriched = [with_score a (Fin 50), with_score b (Fin 30)]
        \<and> recommend search sv no_requirements None tr 2
            = Inr \<lparr>candidates = enriched, requirements = no_requirements,
                   optimize_objectives = None, show_tradeoffs = tr\<rparr>)"
proof -
  have terms: "map (\<lambda>r. stability_term (energy_above_hull r)) [a, b, c]
      = [Fin 40, Fin 20, Fin 0]"
    using assms(3-5) by (simp add: stability_term_Fin)
  have scores: "match_scores all_columns [a, b, c] no_requirements None
      = [Fin 50, Fin 30, Fin 10]"
    using assms(3-5)
    by (simp add: match_scores_def all_columns_def no_requirements_def wants_weight_def
        stability_term_Fin)
  have filt: "apply_filters all_columns [a, b, c] no_requirements = Inr [a, b, c]"
    using assms(3-5) by (simp add: apply_filters_def all_columns_def no_requirements_def)
  have "score_materials all_columns sv [a, b, c] no_requirements None
      = sv [with_score a (Fin 50), with_score b (Fin 30), with_score c (Fin 10)]"
    by (simp add: score_materials_def scores)
  also have "\<dots> = [with_score a (Fin 50), with_score b (Fin 30), with_score c (Fin 10)]"
    using assms(1) by (rule sort_values_strictly_descending) (simp add: match_score_with_score)
  finally have sc: "score_materials all_columns sv [a, b, c] no_requirements None
      = [with_score a (Fin 50), with_score b (Fin 30), with_score c (Fin 10)]" .
  have crit: "\<lparr>crit_min_band_gap = min_band_gap no_requirements,
          crit_max_band_gap = max_band_gap no_requirements,
          crit_elements = elements no_requirements\<rparr>
      = \<lparr>crit_min_band_gap = None, crit_max_band_gap = None, crit_elements = None\<rparr>"
    by (simp add: no_requirements_def)
  obtain enriched where en:
    "enrich_materials (frame_cells all_columns) [with_score a (Fin 50), with_score b (Fin 30)]
       = Inr enriched"
    "map scored_material.truncate enriched = [with_score a (Fin 50), with_score b (Fin 30)]"
    using enrich_materials_float
      [of all_columns "[with_score a (Fin 50), with_score b (Fin 30)]"] by auto
  have rec: "recommend search sv no_requirements None tr 2
        = Inr \<lparr>candidates = enriched, requirements = no_requirements,
               optimize_objectives = None, show_tradeoffs = tr\<rparr>"
    unfolding recommend_def crit assms(2)
    by (simp add: filt sc head_def en(1) del: enrich_materials.simps)
  show ?thesis
    by (intro conjI exI [of _ enriched]) (rule terms scores en rec)+
qed

theorem scenario_three_candidates_witness:
  "sorts_descending stable_sort_descending
   \<and> match_scores all_columns [example_material ''a'' (Fin 0) (Fin 3),
           example_material ''b'' (Fin (5 / 100)) (Fin 6),
           example_material ''c'' (Fin (1 / 10)) (Fin (9 / 2))] no_requirements None
       = [Fin 50, Fin 30, Fin 10]
   \<and> map_sum id
        (\<lambda>res. map (\<lambda>r. (mp_id r, match_score r, recommendation_reason r)) (candidates res))
        (recommend example_search stable_sort_descending no_requirements None False 2)
       = Inr [(''a'', Fin 50, ''Thermodynamically stable; Lightweight; Highly stable''),
              (''b'', Fin 30, ''Thermodynamically stable'')]"
proof -
  let ?a = "example_material ''a'' (Fin 0) (Fin 3)"
  let ?b = "example_material ''b'' (Fin (5 / 100)) (Fin 6)"
  let ?c = "example_material ''c'' (Fin (1 / 10)) (Fin (9 / 2))"
  have s: "example_search
        \<lparr>crit_min_band_gap = None, crit_max_band_gap = None, crit_elements = None\<rparr> 100
      = Inr [?a, ?b, ?c]"
    by (simp add: example_search_def)
  have ea: "energy_above_hull ?a = Fin 0" and eb: "energy_above_hull ?b = Fin (5 / 100)"
    and ec: "energy_above_hull ?c = Fin (1 / 10)"
    by (simp_all add: example_material_def)
  note t = scenario_three_candidates [where sv = stable_sort_descending
      and search = example_search and a = ?a and b = ?b and c = ?c and tr = False,
      OF sorts_descending_stable s ea eb ec]
  from t have m: "match_scores all_columns [?a, ?b, ?c] no_requirements None
      = [Fin 50, Fin 30, Fin 10]"
    by blast
  from t obtain enriched where en:
    "enrich_materials (frame_cells all_columns) [with_score ?a (Fin 50), with_score ?b (Fin 30)]
       = Inr enriched"
    and r: "recommend example_search stable_sort_descending no_requirements None False 2
        = Inr \<lparr>candidates = enriched, requirements = no_requirements,
               optimize_objectives = None, show_tradeoffs = False\<rparr>"
    by blast
  have "enrich_materials (frame_cells all_columns) [with_score ?a (Fin 50), with_score ?b (Fin 30)]
      = Inr [with_reason (with_score ?a (Fin 50))
               ''Thermodynamically stable; Lightweight; Highly stable'',
             with_reason (with_score ?b (Fin 30)) ''Thermodynamically stable'']"
    by (simp add: reason_of_def row_get_def truthy_def py_lt_def frame_cells_def all_columns_def
        with_score_def material.defs scored_material.defs example_material_def)
  with en have e: "enriched = [with_reason (with_score ?a (Fin 50))
               ''Thermodynamically stable; Lightweight; Highly stable'',
             with_reason (with_score ?b (Fin 30)) ''Thermodynamically stable'']"
    by simp
  have "map_sum id
        (\<lambda>res. map (\<lambda>r. (mp_id r, match_score r, recommendation_reason r)) (candidates res))
        (recommend example_search stable_sort_descending no_requirements None False 2)
       = Inr [(''a'', Fin 50, ''Thermodynamically stable; Lightweight; Highly stable''),
              (''b'', Fin 30, ''Thermodynamically stable'')]"
    unfolding r e
    by (simp add: with_score_def with_reason_def material.defs scored_material.defs
        enriched_material.defs example_material_def)
  with m sorts_descending_stable show ?thesis by blast
qed

text \<open>When the search returns rows, the result carries the inputs of the call, also
  when no row passes the filter.\<close>

lemma recommend_nonempty_carries:
  assumes "search \<lparr>crit_min_band_gap = min_band_gap reqs, crit_max_band_gap = max_band_gap reqs,
                   crit_elements = elements reqs\<rparr> 100 = Inr found"
    and "found \<noteq> []"
  shows "\<exists>cands. recommend search sv reqs optimize tradeoffs top_n
     = Inr \<lparr>candidates = cands, requirements = reqs,
            optimize_objectives = optimize, show_tradeoffs = tradeoffs\<rparr>"
proof -
  obtain out where out: "apply_filters all_columns found reqs = Inr out"
    using apply_filters_total [of all_columns found reqs] by (auto simp: all_columns_def)
  obtain enriched where "enrich_materials (frame_cells all_columns)
      (head top_n (score_materials all_columns sv out reqs optimize)) = Inr enriched"
    using enrich_materials_float
      [of all_columns "head top_n (score_materials all_columns sv out reqs optimize)"] by auto
  with assms out show ?thesis
    by (simp add: recommend_def Let_def)
qed

lemma recommend_empty_search:
  assumes "search \<lparr>crit_min_band_gap = min_band_gap reqs, crit_max_band_gap = max_band_gap reqs,
                   crit_elements = elements reqs\<rparr> 100 = Inr []"
  shows "recommend search sv reqs optimize tradeoffs top_n
     = Inr \<lparr>candidates = [], requirements = reqs,
            optimize_objectives = None, show_tradeoffs = False\<rparr>"
  using assms by (simp add: recommend_def)

text \<open>
  Claim C9.  When the search finds nothing, \<open>recommend\<close> returns an empty result and
  does not raise, and the result carries the requirements; but it is built without
  \<open>optimize_objectives\<close>, so it carries \<open>None\<close> and not the objectives of the call, here
  \<open>['weight']\<close>.
\<close>

theorem recommend_empty_drops_objectives:
  "recommend empty_search stable_sort_descending no_requirements (Some [''weight'']) True 5
     = Inr \<lparr>candidates = [], requirements = no_requirements,
            optimize_objectives = None, show_tradeoffs = False\<rparr>"
  by (simp add: recommend_def empty_search_def)



section \<open>Properties of the comparator\<close>

lemma fetch_all_only_not_found:
  "only_not_found get ids \<Longrightarrow>
   fetch_all get ids = Inr (map not_found_warning (not_found_ids get ids), found_records get ids)"
proof (induction ids)
  case Nil
  show ?case by (simp add: not_found_ids_def found_records_def)
next
  case (Cons i ids)
  then have ih: "fetch_all get ids
      = Inr (map not_found_warning (not_found_ids get ids), found_records get ids)"
    by (simp add: only_not_found_def)
  from Cons.prems show ?case
    by (cases "get i") (auto simp: ih only_not_found_def not_found_ids_def found_records_def
        split: error.splits)
qed

lemma truncate_with_deltas: "detailed_material.truncate (with_deltas r d b f) = r"
  by (cases r)
    (simp add: with_deltas_def detailed_material.defs comparison_row.defs material.defs)

lemma deltas_with_deltas:
  "density_vs_baseline (with_deltas r d b f) = d"
  "band_gap_vs_baseline (with_deltas r d b f) = b"
  "formation_energy_vs_baseline (with_deltas r d b f) = f"
  by (simp_all add: with_deltas_def detailed_material.defs comparison_row.defs material.defs)

lemma what_if_fetched:
  assumes "fetch_all get (b # alts) = Inr (warns, rows)"
  shows "what_if get b alts ss =
     Inr (warns,
       if ss \<and> 1 < length rows
       then map (\<lambda>r. with_deltas r
                 (Some (vs_baseline (density r) (density (hd rows))))
                 (Some (vs_baseline (band_gap r) (band_gap (hd rows))))
                 (Some (vs_baseline (formation_energy r) (formation_energy (hd rows))))) rows
       else map (\<lambda>r. with_deltas r None None None) rows)"
  using assms by (simp add: what_if_def Let_def)

lemma what_if_table:
  assumes "fetch_all get (b # alts) = Inr (warns, rows)" and "1 < length rows"
  shows "\<exists>table. what_if get b alts True = Inr (warns, table)
     \<and> length table = length rows
     \<and> (\<forall>i < length rows.
          detailed_material.truncate (table ! i) = rows ! i
        \<and> density_vs_baseline (table ! i)
            = Some (vs_baseline (density (rows ! i)) (density (rows ! 0)))
        \<and> band_gap_vs_baseline (table ! i)
            = Some (vs_baseline (band_gap (rows ! i)) (band_gap (rows ! 0)))
        \<and> formation_energy_vs_baseline (table ! i)
            = Some (vs_baseline (formation_energy (rows ! i)) (formation_energy (rows ! 0))))"
proof -
  from assms(2) have hd: "hd rows = rows ! 0"
    by (cases rows) simp_all
  show ?thesis
    unfolding what_if_fetched [OF assms(1)] using assms(2)
    by (simp add: hd truncate_with_deltas deltas_with_deltas)
qed

lemma what_if_rows:
  assumes "fetch_all get (b # alts) = Inr (warns, rows)"
  shows "\<exists>table. what_if get b alts ss = Inr (warns, table)
     \<and> map detailed_material.truncate table = rows"
  unfolding what_if_fetched [OF assms]
  by (simp add: truncate_with_deltas comp_def)

text \<open>Rounding to the nearest integer gives an integer at distance at most one half.\<close>

lemma rint_near: "\<exists>k::int. rint x = of_int k \<and> \<bar>of_int k - x\<bar> \<le> 1 / 2"
proof -
  have f: "of_int \<lfloor>x\<rfloor> \<le> x" "x < of_int \<lfloor>x\<rfloor> + 1"
    by linarith+
  show ?thesis
  proof (cases "x - of_int \<lfloor>x\<rfloor> < 1 / 2")
    case True
    with f have "rint x = of_int \<lfloor>x\<rfloor> \<and> \<bar>of_int \<lfloor>x\<rfloor> - x\<bar> \<le> 1 / 2"
      by (simp add: rint_def Let_def)
    then show ?thesis by blast
  next
    case False
    note nlt = this
    show ?thesis
    proof (cases "1 / 2 < x - of_int \<lfloor>x\<rfloor>")
      case True
      with nlt f have "rint x = of_int (\<lfloor>x\<rfloor> + 1) \<and> \<bar>of_int (\<lfloor>x\<rfloor> + 1) - x\<bar> \<le> 1 / 2"
        by (simp add: rint_def Let_def)
      then show ?thesis by blast
    next
      case False
      with nlt have eq: "x - of_int \<lfloor>x\<rfloor> = 1 / 2" by linarith
      show ?thesis
      proof (cases "even \<lfloor>x\<rfloor>")
        case True
        with eq have "rint x = of_int \<lfloor>x\<rfloor> \<and> \<bar>of_int \<lfloor>x\<rfloor> - x\<bar> \<le> 1 / 2"
          by (simp add: rint_def Let_def)
        then show ?thesis by blast
      next
        case False
        with eq have "rint x = of_int (\<lfloor>x\<rfloor> + 1) \<and> \<bar>of_int (\<lfloor>x\<rfloor> + 1) - x\<bar> \<le> 1 / 2"
          by (simp add: rint_def Let_def)
        then show ?thesis by blast
      qed
    qed
  qed
qed

lemma round1_Fin:
  "round1 (Fin p) = (if p < 0 \<and> rint (p * 10) = 0 then NegZero else Fin (rint (p * 10) / 10))"
  by (simp add: round1_def)

lemma round1_NegZero: "round1 NegZero = NegZero"
  by (simp add: round1_def)

lemma vs_baseline_Fin:
  assumes "bv \<noteq> 0"
  shows "vs_baseline (Fin v) (Fin bv) =
     (if v = bv \<and> bv < 0 then NegZero else round1 (Fin ((v - bv) / bv * 100)))"
  using assms by (cases "v = bv") (auto simp: vs_baseline_def fsub_def round1_NegZero)

text \<open>For a finite value and a finite non-zero baseline the delta is a multiple of one
  tenth (as \<open>-0.0\<close> when a negative percentage rounds to zero) at distance at most 0.05
  from the percentage.\<close>

lemma vs_baseline_finite:
  assumes "bv \<noteq> 0"
  shows "\<exists>k::int. (vs_baseline (Fin v) (Fin bv) = Fin (of_int k / 10)
          \<or> k = 0 \<and> vs_baseline (Fin v) (Fin bv) = NegZero)
     \<and> \<bar>of_int k / 10 - (v - bv) / bv * 100\<bar> \<le> 1 / 20"
proof (cases "v = bv \<and> bv < 0")
  case True
  then have "vs_baseline (Fin v) (Fin bv) = NegZero"
    using assms by (simp add: vs_baseline_Fin)
  moreover from True have "\<bar>of_int 0 / 10 - (v - bv) / bv * 100\<bar> \<le> 1 / 20"
    by simp
  ultimately show ?thesis by blast
next
  case False
  obtain k :: int where k: "rint ((v - bv) / bv * 100 * 10) = of_int k"
      "\<bar>of_int k - (v - bv) / bv * 100 * 10\<bar> \<le> 1 / 2"
    using rint_near by blast
  have d: "\<bar>of_int k / 10 - (v - bv) / bv * 100\<bar> \<le> 1 / 20"
    using k(2) by (simp add: abs_le_iff field_simps)
  have v: "vs_baseline (Fin v) (Fin bv) = round1 (Fin ((v - bv) / bv * 100))"
    using False assms by (auto simp: vs_baseline_Fin)
  show ?thesis
  proof (cases "(v - bv) / bv * 100 < 0 \<and> rint ((v - bv) / bv * 100 * 10) = 0")
    case True
    with k(1) have "k = 0" by simp
    moreover from True have "vs_baseline (Fin v) (Fin bv) = NegZero"
      unfolding v round1_Fin by simp
    ultimately show ?thesis using d by blast
  next
    case False
    then have "vs_baseline (Fin v) (Fin bv) = Fin (of_int k / 10)"
      unfolding v round1_Fin using k(1) by auto
    with d show ?thesis by blast
  qed
qed

lemma vs_baseline_same_positive: "0 < bv \<Longrightarrow> vs_baseline (Fin bv) (Fin bv) = Fin 0"
  by (simp add: vs_baseline_Fin round1_Fin rint_def)

text \<open>A baseline that is a zero, of either sign: NaN when the value is a zero or NaN,
  an infinity otherwise.\<close>

lemma vs_baseline_zero:
  assumes "z = Fin 0 \<or> z = NegZero"
  shows "if x = Fin 0 \<or> x = NegZero \<or> x = NaN then vs_baseline x z = NaN
         else vs_baseline x z = PInf \<or> vs_baseline x z = NInf"
proof (cases x)
  case (Fin a)
  then show ?thesis
    using assms by (cases "a = 0"; cases "0 < a") (auto simp: vs_baseline_def fsub_def round1_def)
qed (use assms in \<open>auto simp: vs_baseline_def fsub_def round1_def\<close>)

lemma fetch_all_baseline_missing:
  assumes "get b = Inl (ValueError m)"
  shows "fetch_all get (b # alts) =
     (case fetch_all get alts of
        Inl e \<Rightarrow> Inl e
      | Inr (w, rows) \<Rightarrow> Inr (not_found_warning b # w, rows))"
  using assms by simp

lemmas comparator_eval = what_if_def example_source_def example_detail_def
  not_found_warning_def with_deltas_def detailed_material.defs comparison_row.defs
  material.defs vs_baseline_def fsub_def round1_def rint_def Let_def

text \<open>
  Claim C6.  When the only failures of the source on the identifiers
  \<open>[baseline] + alternatives\<close> are identifiers it does not find, \<open>what_if\<close> returns (it
  does not raise), prints one warning for every identifier that is not found, in order,
  and the rows of its table are exactly the records of the identifiers that are found,
  in the order of the identifiers.
\<close>

theorem what_if_skips_not_found:
  assumes "only_not_found get (b # alts)"
  shows "\<exists>table. what_if get b alts ss
        = Inr (map not_found_warning (not_found_ids get (b # alts)), table)
     \<and> map detailed_material.truncate table = found_records get (b # alts)"
  using what_if_rows [OF fetch_all_only_not_found [OF assms]] .

theorem what_if_skips_not_found_witness:
  "only_not_found example_source [''mp-1'', ''mp-149'', ''mp-2'', ''mp-13'']
   \<and> (\<exists>table. what_if example_source ''mp-1'' [''mp-149'', ''mp-2'', ''mp-13''] True
        = Inr ([''Warning: Material mp-1 not found'', ''Warning: Material mp-2 not found''], table)
      \<and> map detailed_material.truncate table
        = [example_detail ''mp-149'' (Fin 7), example_detail ''mp-13'' (Fin (35 / 10))])"
proof -
  have h: "only_not_found example_source (''mp-1'' # [''mp-149'', ''mp-2'', ''mp-13''])"
    by (simp add: only_not_found_def example_source_def)
  have w: "map not_found_warning
        (not_found_ids example_source (''mp-1'' # [''mp-149'', ''mp-2'', ''mp-13'']))
      = [''Warning: Material mp-1 not found'', ''Warning: Material mp-2 not found'']"
    by (simp add: not_found_ids_def example_source_def not_found_warning_def)
  have f: "found_records example_source (''mp-1'' # [''mp-149'', ''mp-2'', ''mp-13''])
      = [example_detail ''mp-149'' (Fin 7), example_detail ''mp-13'' (Fin (35 / 10))]"
    by (simp add: found_records_def example_source_def)
  from what_if_skips_not_found [OF h, of True] show ?thesis
    unfolding w f using h by simp
qed


text \<open>
  Claim C7.  With \<open>show_savings\<close> at its default \<open>True\<close>: when more than one record is
  fetched, every row of the table gets, for each of density, band gap and formation
  energy, the cell \<open>((value - baseline) / baseline * 100).round(1)\<close>, the baseline being
  the first row.  For a finite value and a finite non-zero baseline that cell is a
  multiple of one tenth (zero being \<open>0.0\<close> or \<open>-0.0\<close>) at distance at most 0.05 from
  \<open>(value - baseline) / baseline * 100\<close>.
  Comparing an identifier of density 7.0 with itself gives a density delta of exactly
  0.0 on the duplicate row.
\<close>

theorem what_if_percentage_deltas:
  "(fetch_all get (b # alts) = Inr (warns, rows) \<and> 1 < length rows \<longrightarrow>
      (\<exists>table. what_if get b alts True = Inr (warns, table)
         \<and> length table = length rows
         \<and> (\<forall>i < length rows.
              detailed_material.truncate (table ! i) = rows ! i
            \<and> density_vs_baseline (table ! i)
                = Some (vs_baseline (density (rows ! i)) (density (rows ! 0)))
            \<and> band_gap_vs_baseline (table ! i)
                = Some (vs_baseline (band_gap (rows ! i)) (band_gap (rows ! 0)))
            \<and> formation_energy_vs_baseline (table ! i)
                = Some (vs_baseline (formation_energy (rows ! i))
                                    (formation_energy (rows ! 0))))))
   \<and> (bv \<noteq> 0 \<longrightarrow>
        (\<exists>k::int. (vs_baseline (Fin v) (Fin bv) = Fin (of_int k / 10)
              \<or> k = 0 \<and> vs_baseline (Fin v) (Fin bv) = NegZero)
           \<and> \<bar>of_int k / 10 - (v - bv) / bv * 100\<bar> \<le> 1 / 20))
   \<and> (get b = Inr r \<and> density r = Fin 7 \<longrightarrow>
        (\<exists>t0 t1. what_if get b [b] True = Inr ([], [t0, t1])
           \<and> density_vs_baseline t1 = Some (Fin 0)))"
proof (intro conjI impI)
  assume "fetch_all get (b # alts) = Inr (warns, rows) \<and> 1 < length rows"
  then show "\<exists>table. what_if get b alts True = Inr (warns, table)
         \<and> length table = length rows
         \<and> (\<forall>i < length rows.
              detailed_material.truncate (table ! i) = rows ! i
            \<and> density_vs_baseline (table ! i)
                = Some (vs_baseline (density (rows ! i)) (density (rows ! 0)))
            \<and> band_gap_vs_baseline (table ! i)
                = Some (vs_baseline (band_gap (rows ! i)) (band_gap (rows ! 0)))
            \<and> formation_energy_vs_baseline (table ! i)
                = Some (vs_baseline (formation_energy (rows ! i))
                                    (formation_energy (rows ! 0))))"
    using what_if_table by blast
next
  assume "bv \<noteq> 0"
  then show "\<exists>k::int. (vs_baseline (Fin v) (Fin bv) = Fin (of_int k / 10)
              \<or> k = 0 \<and> vs_baseline (Fin v) (Fin bv) = NegZero)
           \<and> \<bar>of_int k / 10 - (v - bv) / bv * 100\<bar> \<le> 1 / 20"
    by (rule vs_baseline_finite)
next
  assume a: "get b = Inr r \<and> density r = Fin 7"
  then have f: "fetch_all get (b # [b]) = Inr ([], [r, r])" by simp
  have "what_if get b [b] True = Inr ([], [
      with_deltas r (Some (vs_baseline (density r) (density r)))
                 (Some (vs_baseline (band_gap r) (band_gap r)))
                 (Some (vs_baseline (formation_energy r) (formation_energy r))),
      with_deltas r (Some (vs_baseline (density r) (density r)))
                 (Some (vs_baseline (band_gap r) (band_gap r)))
                 (Some (vs_baseline (formation_energy r) (formation_energy r)))])"
    unfolding what_if_fetched [OF f] by simp
  moreover have "vs_baseline (density r) (density r) = Fin 0"
    using a by (simp add: vs_baseline_same_positive)
  ultimately show "\<exists>t0 t1. what_if get b [b] True = Inr ([], [t0, t1])
           \<and> density_vs_baseline t1 = Some (Fin 0)"
    by (simp add: deltas_with_deltas)
qed

theorem what_if_percentage_deltas_witness:
  "fetch_all example_source [''mp-149'', ''mp-13'']
      = Inr ([], [example_detail ''mp-149'' (Fin 7), example_detail ''mp-13'' (Fin (35 / 10))])
   \<and> (\<exists>table. what_if example_source ''mp-149'' [''mp-13''] True = Inr ([], table)
        \<and> map density_vs_baseline table = [Some (Fin 0), Some (Fin (- 50))])
   \<and> (7::real) \<noteq> 0
   \<and> (\<exists>k::int. (vs_baseline (Fin 8) (Fin 7) = Fin (of_int k / 10)
              \<or> k = 0 \<and> vs_baseline (Fin 8) (Fin 7) = NegZero)
           \<and> \<bar>of_int k / 10 - (8 - 7) / 7 * 100 :: real\<bar> \<le> 1 / 20)
   \<and> example_source ''mp-149'' = Inr (example_detail ''mp-149'' (Fin 7))
   \<and> (\<exists>t0 t1. what_if example_source ''mp-149'' [''mp-149''] True = Inr ([], [t0, t1])
           \<and> density_vs_baseline t1 = Some (Fin 0))"
proof -
  note t = what_if_percentage_deltas [of example_source "''mp-149''" "[''mp-13'']" "[]"
      "[example_detail ''mp-149'' (Fin 7), example_detail ''mp-13'' (Fin (35 / 10))]" 7 8
      "example_detail ''mp-149'' (Fin 7)"]
  have f: "fetch_all example_source [''mp-149'', ''mp-13'']
      = Inr ([], [example_detail ''mp-149'' (Fin 7), example_detail ''mp-13'' (Fin (35 / 10))])"
    by (simp add: example_source_def)
  have g: "example_source ''mp-149'' = Inr (example_detail ''mp-149'' (Fin 7))"
    by (simp add: example_source_def)
  have d: "density (example_detail ''mp-149'' (Fin 7)) = Fin 7"
    by (simp add: example_detail_def)
  have e: "what_if example_source ''mp-149'' [''mp-13''] True = Inr ([], table)
      \<Longrightarrow> map density_vs_baseline table = [Some (Fin 0), Some (Fin (- 50))]" for table
    by (auto simp: comparator_eval)
  from t f have "\<exists>table. what_if example_source ''mp-149'' [''mp-13''] True = Inr ([], table)"
    by auto
  with e have 1: "\<exists>table. what_if example_source ''mp-149'' [''mp-13''] True = Inr ([], table)
        \<and> map density_vs_baseline table = [Some (Fin 0), Some (Fin (- 50))]" by blast
  from t have 2: "\<exists>k::int. (vs_baseline (Fin 8) (Fin 7) = Fin (of_int k / 10)
              \<or> k = 0 \<and> vs_baseline (Fin 8) (Fin 7) = NegZero)
           \<and> \<bar>of_int k / 10 - (8 - 7) / 7 * 100 :: real\<bar> \<le> 1 / 20" by simp
  from t g d have 3: "\<exists>t0 t1. what_if example_source ''mp-149'' [''mp-149''] True
             = Inr ([], [t0, t1])
           \<and> density_vs_baseline t1 = Some (Fin 0)" by blast
  show ?thesis using f 1 2 3 g by simp
qed

text \<open>
  Claim C8, as the code has it.  A zero in the baseline row does not make \<open>what_if\<close>
  raise, and every cell of the table is produced: each delta cell is the rounded
  percentage against the first row, computed with the IEEE division.  For a column
  whose baseline value is zero (\<open>0.0\<close> or \<open>-0.0\<close>) the delta cell of a row is NaN when
  the row's own value is a zero (so on the baseline row) or NaN, and an infinity when
  it is not; nothing in the code replaces the infinity.
\<close>

theorem zero_baseline_cells:
  "(fetch_all get (b # alts) = Inr (warns, rows) \<and> 1 < length rows \<longrightarrow>
      (\<exists>table. what_if get b alts True = Inr (warns, table)
         \<and> length table = length rows
         \<and> (\<forall>i < length rows.
              detailed_material.truncate (table ! i) = rows ! i
            \<and> density_vs_baseline (table ! i)
                = Some (vs_baseline (density (rows ! i)) (density (rows ! 0)))
            \<and> band_gap_vs_baseline (table ! i)
                = Some (vs_baseline (band_gap (rows ! i)) (band_gap (rows ! 0)))
            \<and> formation_energy_vs_baseline (table ! i)
                = Some (vs_baseline (formation_energy (rows ! i))
                                    (formation_energy (rows ! 0))))))
   \<and> (z = Fin 0 \<or> z = NegZero \<longrightarrow>
        (if x = Fin 0 \<or> x = NegZero \<or> x = NaN then vs_baseline x z = NaN
         else vs_baseline x z = PInf \<or> vs_baseline x z = NInf))"
  using what_if_table [of get b alts warns rows] vs_baseline_zero [of z x] by blast

theorem zero_baseline_cells_witness:
  "fetch_all example_source [''mp-0'', ''mp-149'', ''mp-13'']
      = Inr ([], [example_detail ''mp-0'' (Fin 0), example_detail ''mp-149'' (Fin 7),
                  example_detail ''mp-13'' (Fin (35 / 10))])
   \<and> density (example_detail ''mp-0'' (Fin 0)) = Fin 0
   \<and> (\<exists>table. what_if example_source ''mp-0'' [''mp-149'', ''mp-13''] True = Inr ([], table)
        \<and> length table = 3
        \<and> map density_vs_baseline table = [Some NaN, Some PInf, Some PInf]
        \<and> map band_gap_vs_baseline table = [Some (Fin 0), Some (Fin 0), Some (Fin 0)])
   \<and> vs_baseline (Fin 0) NegZero = NaN
   \<and> (vs_baseline (Fin 7) NegZero = PInf \<or> vs_baseline (Fin 7) NegZero = NInf)"
proof -
  let ?rows = "[example_detail ''mp-0'' (Fin 0), example_detail ''mp-149'' (Fin 7),
                  example_detail ''mp-13'' (Fin (35 / 10))]"
  have f: "fetch_all example_source (''mp-0'' # [''mp-149'', ''mp-13'']) = Inr ([], ?rows)"
    by (simp add: example_source_def)
  have l: "1 < length ?rows" by simp
  have z: "density (example_detail ''mp-0'' (Fin 0)) = Fin 0" by (simp add: example_detail_def)
  from zero_baseline_cells [of example_source "''mp-0''" "[''mp-149'', ''mp-13'']" "[]" ?rows
      NegZero "Fin 0"] f l
  obtain table
    where t: "what_if example_source ''mp-0'' [''mp-149'', ''mp-13''] True = Inr ([], table)"
      and "length table = length ?rows"
      and n: "vs_baseline (Fin 0) NegZero = NaN" by auto
  then have len: "length table = 3" by simp
  from zero_baseline_cells [of example_source "''mp-0''" "[''mp-149'', ''mp-13'']" "[]" ?rows
      NegZero "Fin 7"]
  have i: "vs_baseline (Fin 7) NegZero = PInf \<or> vs_baseline (Fin 7) NegZero = NInf" by simp
  from t have "map density_vs_baseline table = [Some NaN, Some PInf, Some PInf]"
    and "map band_gap_vs_baseline table = [Some (Fin 0), Some (Fin 0), Some (Fin 0)]"
    by (auto simp: comparator_eval)
  with t len f z n i show ?thesis by auto
qed

text \<open>A baseline of density 0 and an alternative of density 7: the density delta of the
  alternative's row is plus infinity, not NaN.  (The two formation energies are both
  -2, so that delta is \<open>0.0 / -2.0 * 100 = -0.0\<close>.)\<close>

theorem zero_baseline_counterexample:
  "what_if example_source ''mp-0'' [''mp-149''] True
     = Inr ([], [with_deltas (example_detail ''mp-0'' (Fin 0))
                   (Some NaN) (Some (Fin 0)) (Some NegZero),
                 with_deltas (example_detail ''mp-149'' (Fin 7))
                   (Some PInf) (Some (Fin 0)) (Some NegZero)])"
  by (simp add: what_if_def example_source_def example_detail_def vs_baseline_def fsub_def
      round1_def rint_def)

text \<open>
  Claim C10, as the code has it.  When the source does not find the baseline
  identifier, \<open>what_if\<close> raises nothing and returns the very table it returns when the
  first alternative is given as the baseline: with more than one alternative fetched,
  every delta is computed against the first fetched row, and nothing in the table says
  that the requested baseline is absent.  The promotion is not silent: the warning
  that names the baseline is printed, as for any identifier that is not found.
\<close>

theorem missing_baseline_promotes_first:
  assumes "get b = Inl (ValueError m)"
  shows "what_if get b (a # alts) ss =
           (case what_if get a alts ss of
              Inl e \<Rightarrow> Inl e
            | Inr (w, table) \<Rightarrow> Inr (not_found_warning b # w, table))
    \<and> (fetch_all get alts' = Inr (w', rows) \<and> 1 < length rows \<longrightarrow>
         (\<exists>table. what_if get b alts' True = Inr (not_found_warning b # w', table)
            \<and> length table = length rows
            \<and> (\<forall>i < length rows.
                 detailed_material.truncate (table ! i) = rows ! i
               \<and> density_vs_baseline (table ! i)
                   = Some (vs_baseline (density (rows ! i)) (density (rows ! 0)))
               \<and> band_gap_vs_baseline (table ! i)
                   = Some (vs_baseline (band_gap (rows ! i)) (band_gap (rows ! 0)))
               \<and> formation_energy_vs_baseline (table ! i)
                   = Some (vs_baseline (formation_energy (rows ! i))
                                       (formation_energy (rows ! 0))))))"
proof (intro conjI impI)
  show "what_if get b (a # alts) ss =
           (case what_if get a alts ss of
              Inl e \<Rightarrow> Inl e
            | Inr (w, table) \<Rightarrow> Inr (not_found_warning b # w, table))"
    unfolding what_if_def
      fetch_all_baseline_missing [where get = get and b = b and m = m and alts = "a # alts",
        OF assms]
    by (simp add: Let_def split: sum.splits prod.splits)
next
  assume h: "fetch_all get alts' = Inr (w', rows) \<and> 1 < length rows"
  then have "fetch_all get (b # alts') = Inr (not_found_warning b # w', rows)"
    using assms by simp
  with h show "\<exists>table. what_if get b alts' True = Inr (not_found_warning b # w', table)
            \<and> length table = length rows
            \<and> (\<forall>i < length rows.
                 detailed_material.truncate (table ! i) = rows ! i
               \<and> density_vs_baseline (table ! i)
                   = Some (vs_baseline (density (rows ! i)) (density (rows ! 0)))
               \<and> band_gap_vs_baseline (table ! i)
                   = Some (vs_baseline (band_gap (rows ! i)) (band_gap (rows ! 0)))
               \<and> formation_energy_vs_baseline (table ! i)
                   = Some (vs_baseline (formation_energy (rows ! i))
                                       (formation_energy (rows ! 0))))"
    using what_if_table by blast
qed

theorem missing_baseline_promotes_first_witness:
  "example_source ''mp-1'' = Inl (ValueError ''Material mp-1 not found'')
   \<and> what_if example_source ''mp-1'' [''mp-149'', ''mp-13''] True
       = Inr ([''Warning: Material mp-1 not found''],
              [with_deltas (example_detail ''mp-149'' (Fin 7))
                 (Some (Fin 0)) (Some (Fin 0)) (Some NegZero),
               with_deltas (example_detail ''mp-13'' (Fin (35 / 10)))
                 (Some (Fin (- 50))) (Some (Fin 0)) (Some NegZero)])
   \<and> what_if example_source ''mp-149'' [''mp-13''] True
       = Inr ([],
              [with_deltas (example_detail ''mp-149'' (Fin 7))
                 (Some (Fin 0)) (Some (Fin 0)) (Some NegZero),
               with_deltas (example_detail ''mp-13'' (Fin (35 / 10)))
                 (Some (Fin (- 50))) (Some (Fin 0)) (Some NegZero)])"
proof -
  have h: "example_source ''mp-1'' = Inl (ValueError ''Material mp-1 not found'')"
    by (simp add: example_source_def)
  have w: "what_if example_source ''mp-149'' [''mp-13''] True
       = Inr ([],
              [with_deltas (example_detail ''mp-149'' (Fin 7))
                 (Some (Fin 0)) (Some (Fin 0)) (Some NegZero),
               with_deltas (example_detail ''mp-13'' (Fin (35 / 10)))
                 (Some (Fin (- 50))) (Some (Fin 0)) (Some NegZero)])"
    by (simp add: what_if_def example_source_def example_detail_def vs_baseline_def fsub_def
        round1_def rint_def)
  from missing_baseline_promotes_first [where get = example_source and b = "''mp-1''"
      and m = "''Material mp-1 not found''" and a = "''mp-149''" and alts = "[''mp-13'']"
      and ss = True, OF h]
  have "what_if example_source ''mp-1'' [''mp-149'', ''mp-13''] True =
           (case what_if example_source ''mp-149'' [''mp-13''] True of
              Inl e \<Rightarrow> Inl e
            | Inr (w, table) \<Rightarrow> Inr (not_found_warning ''mp-1'' # w, table))"
    by blast
  then show ?thesis unfolding w using h by (simp add: not_found_warning_def)
qed

text \<open>The baseline \<open>mp-1\<close> is not found: the call prints the warning that names it.\<close>

theorem missing_baseline_warning_counterexample:
  "example_source ''mp-1'' = Inl (ValueError ''Material mp-1 not found'')
   \<and> map_sum id fst (what_if example_source ''mp-1'' [''mp-149'', ''mp-13''] True)
       = Inr [''Warning: Material mp-1 not found'']"
  by (simp add: what_if_def example_source_def not_found_warning_def Let_def)


end
